theory Spec2Isabelle
  imports Complex_Main "HOL-Library.Word" "HOL-Library.Log_Nat"
begin

section \<open>Data model of the ADR engine (package networkserver)\<close>

text \<open>
  Go's fixed-width integers are words: \<open>uint32\<close> is \<open>32 word\<close>, \<open>uint8\<close> is
  \<open>8 word\<close>, and \<open>int\<close> is read as a 64-bit two's complement word (a 64-bit build),
  compared with the signed orders \<open>\<le>s\<close> and \<open><s\<close>.
\<close>

type_synonym uint8 = "8 word"
type_synonym uint32 = "32 word"
type_synonym go_int = "64 word"

text \<open>
  A \<open>float32\<close> is a number (\<open>F32\<close>, positive zero being \<open>F32 0\<close>), the negative
  zero, an infinity or NaN. The ADR engine only stores and compares such values, so the
  numbers are not restricted to those with a 24-bit significand.
\<close>

datatype float32 = F32 rat | F32_NegZero | F32_PosInf | F32_NegInf | F32_NaN

fun f32_number :: "float32 \<Rightarrow> rat" where
  "f32_number (F32 x) = x"
| "f32_number v = 0"

text \<open>
  Go's comparison \<open>a > b\<close> of two \<open>float32\<close>: false whenever an operand is NaN; the two
  zeros are equal.
\<close>

fun f32_gt :: "float32 \<Rightarrow> float32 \<Rightarrow> bool" where
  "f32_gt F32_NaN b = False"
| "f32_gt a F32_NaN = False"
| "f32_gt F32_PosInf b = (b \<noteq> F32_PosInf)"
| "f32_gt a F32_PosInf = False"
| "f32_gt a F32_NegInf = (a \<noteq> F32_NegInf)"
| "f32_gt F32_NegInf b = False"
| "f32_gt a b = (f32_number b < f32_number a)"

text \<open>Go's \<open>a <= b\<close>; it is used to say what a maximum is.\<close>

definition f32_le :: "float32 \<Rightarrow> float32 \<Rightarrow> bool" where
  "f32_le a b = (a \<noteq> F32_NaN \<and> b \<noteq> F32_NaN \<and> \<not> f32_gt a b)"

text \<open>\<open>device.Frame\<close>: one uplink telemetry sample.\<close>

record Frame =
  FCnt :: uint32
  SNR :: float32
  GatewayCount :: uint32

subsection \<open>maxSNR\<close>

text \<open>
  The \<open>for _, frame := range frames\<close> loop of \<open>maxSNR\<close>, with the running maximum as
  its state.
\<close>

fun maxSNR_loop :: "float32 \<Rightarrow> Frame list \<Rightarrow> float32" where
  "maxSNR_loop mx [] = mx"
| "maxSNR_loop mx (frame # rest) =
     maxSNR_loop (if f32_gt (SNR frame) mx then SNR frame else mx) rest"

definition maxSNR :: "Frame list \<Rightarrow> float32" where
  "maxSNR frames =
     (if length frames = 0 then F32 0
      else maxSNR_loop (SNR (frames ! 0)) frames)"

subsection \<open>float64 arithmetic of lossPercentage\<close>

text \<open>
  \<open>lossPercentage\<close> divides, multiplies and adds in \<open>float64\<close>. A \<open>float64\<close> value
  is a finite rational, an infinity or NaN. Every finite result is rounded to the nearest
  number with a 53-bit significand, ties to the even significand (\<open>round64\<close>); the
  magnitudes that occur here (quotients of two \<open>uint32\<close>, times 100) are far inside the
  normal exponent range, so overflow and subnormal numbers are not modelled.
\<close>

datatype float64 = Finite rat | PosInf | NegInf | NaN

text \<open>
  \<open>ilog2 x\<close> is the binary exponent of a positive rational:
  \<open>2 ^ ilog2 x \<le> x < 2 ^ (ilog2 x + 1)\<close>.
\<close>

definition ilog2 :: "rat \<Rightarrow> int" where
  "ilog2 x = (if 1 \<le> x then bitlen \<lfloor>x\<rfloor> - 1 else - bitlen (\<lceil>1 / x\<rceil> - 1))"

definition round_half_even :: "rat \<Rightarrow> int" where
  "round_half_even x =
     (let f = \<lfloor>x\<rfloor>; d = x - of_int f
      in if d < 1 / 2 then f
         else if 1 / 2 < d then f + 1
         else if even f then f else f + 1)"

text \<open>Rounding to \<open>p\<close> significant bits: 53 for \<open>float64\<close>, 24 for \<open>float32\<close>.\<close>

definition round_sig :: "int \<Rightarrow> rat \<Rightarrow> rat" where
  "round_sig p x =
     (if x = 0 then 0
      else let u = 2 powi (ilog2 \<bar>x\<bar> - (p - 1))
           in of_int (round_half_even (x / u)) * u)"

definition round64 :: "rat \<Rightarrow> rat" where
  "round64 x = round_sig 53 x"

text \<open>\<open>float32(m)\<close> of an \<open>int\<close>.\<close>

definition float32_of_int :: "go_int \<Rightarrow> float32" where
  "float32_of_int m = F32 (round_sig 24 (of_int (sint m)))"

text \<open>\<open>float64(w)\<close> of a \<open>uint32\<close> is exact.\<close>

definition f64_of_uint32 :: "uint32 \<Rightarrow> float64" where
  "f64_of_uint32 w = Finite (of_nat (unat w))"

fun f64_div :: "float64 \<Rightarrow> float64 \<Rightarrow> float64" where
  "f64_div (Finite x) (Finite y) =
     (if y = 0 then (if x = 0 then NaN else if 0 < x then PosInf else NegInf)
      else Finite (round64 (x / y)))"
| "f64_div (Finite x) PosInf = Finite 0"
| "f64_div (Finite x) NegInf = Finite 0"
| "f64_div PosInf (Finite y) = (if 0 \<le> y then PosInf else NegInf)"
| "f64_div NegInf (Finite y) = (if 0 \<le> y then NegInf else PosInf)"
| "f64_div _ _ = NaN"

fun f64_mul :: "float64 \<Rightarrow> float64 \<Rightarrow> float64" where
  "f64_mul (Finite x) (Finite y) = Finite (round64 (x * y))"
| "f64_mul PosInf (Finite y) = (if y = 0 then NaN else if 0 < y then PosInf else NegInf)"
| "f64_mul NegInf (Finite y) = (if y = 0 then NaN else if 0 < y then NegInf else PosInf)"
| "f64_mul (Finite x) PosInf = (if x = 0 then NaN else if 0 < x then PosInf else NegInf)"
| "f64_mul (Finite x) NegInf = (if x = 0 then NaN else if 0 < x then NegInf else PosInf)"
| "f64_mul PosInf PosInf = PosInf"
| "f64_mul NegInf NegInf = PosInf"
| "f64_mul PosInf NegInf = NegInf"
| "f64_mul NegInf PosInf = NegInf"
| "f64_mul _ _ = NaN"

fun f64_add :: "float64 \<Rightarrow> float64 \<Rightarrow> float64" where
  "f64_add (Finite x) (Finite y) = Finite (round64 (x + y))"
| "f64_add PosInf (Finite y) = PosInf"
| "f64_add NegInf (Finite y) = NegInf"
| "f64_add (Finite x) PosInf = PosInf"
| "f64_add (Finite x) NegInf = NegInf"
| "f64_add PosInf PosInf = PosInf"
| "f64_add NegInf NegInf = NegInf"
| "f64_add _ _ = NaN"

text \<open>
  Go allows an implementation to fuse \<open>x * y + z\<close> into one operation that rounds once
  (it does so on arm64, for instance, and not on amd64). With finite operands the fused
  result is the rounding of the exact \<open>x * y + z\<close>; infinities and NaN propagate as in
  the separate operations.
\<close>

fun f64_fma :: "float64 \<Rightarrow> float64 \<Rightarrow> float64 \<Rightarrow> float64" where
  "f64_fma (Finite x) (Finite y) (Finite z) = Finite (round64 (x * y + z))"
| "f64_fma a b c = f64_add (f64_mul a b) c"

text \<open>\<open>math.Floor\<close>: infinities and NaN are returned as they are.\<close>

fun math_Floor :: "float64 \<Rightarrow> float64" where
  "math_Floor (Finite x) = Finite (of_int \<lfloor>x\<rfloor>)"
| "math_Floor v = v"

text \<open>
  The conversion \<open>int(f)\<close> truncates a finite value that fits into the 64 bits of \<open>int\<close>.
  For every other value (too large, infinite, NaN) the Go specification leaves the result
  to the implementation; \<open>undef\<close> stands for the integer that the platform produces.
\<close>

fun int_of_float64 :: "go_int \<Rightarrow> float64 \<Rightarrow> go_int" where
  "int_of_float64 undef (Finite x) =
     (let t = (if 0 \<le> x then \<lfloor>x\<rfloor> else \<lceil>x\<rceil>)
      in if - (2 ^ 63) \<le> t \<and> t < 2 ^ 63 then word_of_int t else undef)"
| "int_of_float64 undef v = undef"

subsection \<open>lossPercentage\<close>

text \<open>
  What the Go specification leaves to the implementation and \<open>lossPercentage\<close> depends
  on: whether a multiplication and an addition are fused, and the integer that the
  conversion of a non-representable \<open>float64\<close> yields.
\<close>

record platform =
  fused_multiply_add :: bool
  int_of_nonfinite :: go_int

definition lossPercentage :: "platform \<Rightarrow> Frame list \<Rightarrow> go_int" where
  "lossPercentage pf frames =
     (if length frames = 0 then 0
      else
        let sentPackets = FCnt (frames ! 0) - FCnt (frames ! (length frames - 1)) + 1;
            loss = sentPackets - of_nat (length frames);
            quotient = f64_div (f64_of_uint32 loss) (f64_of_uint32 sentPackets)
        in int_of_float64 (int_of_nonfinite pf)
             (math_Floor
                (if fused_multiply_add pf
                 then f64_fma quotient (Finite 100) (Finite (1 / 2))
                 else f64_add (f64_mul quotient (Finite 100)) (Finite (1 / 2)))))"

subsection \<open>Errors and outcomes\<close>

text \<open>
  A Go \<open>error\<close> is \<open>None\<close> for \<open>nil\<close>. \<open>ErrADRUnavailable\<close> is the sentinel
  \<open>band.ErrADRUnavailable\<close>; every other error is \<open>Err\<close> with its message. A call that
  returns \<open>error\<close> ends in \<open>Success\<close> (nil), in \<open>Failure\<close>, or in a run-time panic
  (a nil dereference or an index out of range).
\<close>

datatype error = ErrADRUnavailable | Err string

datatype outcome = Success | Failure error | Panic

subsection \<open>Device state\<close>

text \<open>\<open>device.ADRSettings\<close> and the fields of \<open>device.Device\<close> that the ADR engine uses.\<close>

record ADRSettings =
  Band :: string
  Margin :: go_int
  SendReq :: bool
  Failed :: go_int
  DataRate :: string
  TxPower :: go_int
  NbTrans :: go_int

record Device =
  AppEUI :: "64 word"
  DevEUI :: "64 word"
  ADR :: ADRSettings
  DisableFCntCheck :: bool

definition DefaultADRMargin :: go_int where
  "DefaultADRMargin = 15"

subsection \<open>Frame history store\<close>

text \<open>
  Modelled from the spec: the frame history of package \<open>device\<close> (\<open>FramesHistorySize\<close>,
  \<open>Push\<close>, \<open>Get\<close>, \<open>Clear\<close>) is not among the sources. The history is the list of
  samples, newest first; \<open>Push\<close> prepends and truncates to the window size, \<open>Get\<close>
  returns the snapshot, \<open>Clear\<close> discards all samples; each returns the error of the
  backing store when that is unavailable (\<open>push_error\<close>, \<open>get_error\<close>,
  \<open>clear_error\<close>) and then changes nothing. The window of the spec's example has 20
  frames.
\<close>

definition FramesHistorySize :: nat where
  "FramesHistorySize = 20"

record FrameHistory =
  samples :: "Frame list"
  push_error :: "error option"
  get_error :: "error option"
  clear_error :: "error option"

definition Push :: "FrameHistory \<Rightarrow> Frame \<Rightarrow> error option \<times> FrameHistory" where
  "Push h frame =
     (case push_error h of
        Some e \<Rightarrow> (Some e, h)
      | None \<Rightarrow> (None, h\<lparr>samples := take FramesHistorySize (frame # samples h)\<rparr>))"

definition Get :: "FrameHistory \<Rightarrow> Frame list \<times> error option" where
  "Get h =
     (case get_error h of
        Some e \<Rightarrow> ([], Some e)
      | None \<Rightarrow> (samples h, None))"

definition Clear :: "FrameHistory \<Rightarrow> error option \<times> FrameHistory" where
  "Clear h =
     (case clear_error h of
        Some e \<Rightarrow> (Some e, h)
      | None \<Rightarrow> (None, h\<lparr>samples := []\<rparr>))"

text \<open>
  \<open>n.devices.Frames(appEUI, devEUI)\<close> returns a history handle (\<open>None\<close> for a nil
  interface value) and an error.
\<close>

record networkServer =
  devices_Frames :: "64 word \<times> 64 word \<Rightarrow> FrameHistory option \<times> error option"

subsection \<open>Frequency plan\<close>

text \<open>
  The frequency plan of package \<open>band\<close> is consumed as a capability: its tables and
  methods are parameters. A Go method with results \<open>(v, err)\<close> returns the pair.
\<close>

record Channel =
  DataRates :: "go_int list"

record FrequencyPlan =
  DefaultTXPower :: go_int
  UplinkChannels :: "Channel list"
  plan_ADRSettings ::
    "string \<Rightarrow> go_int \<Rightarrow> float32 \<Rightarrow> float32 \<Rightarrow> string \<times> go_int \<times> error option"
  GetDataRateIndexFor :: "string \<Rightarrow> go_int \<times> error option"
  GetTxPowerIndexFor :: "go_int \<Rightarrow> go_int \<times> error option"

subsection \<open>Messages and MAC commands\<close>

record MACCommand =
  CID :: uint32
  Payload :: "uint8 list"

text \<open>The CID of \<open>lorawan.LinkADRReq\<close>.\<close>

definition LinkADRReq :: uint32 where
  "LinkADRReq = 3"

record MACPayload =
  mac_ADR :: bool
  mac_ADRAckReq :: bool
  mac_Ack :: bool
  mac_FCnt :: uint32
  FOpts :: "MACCommand list"

record RxMetadata =
  rx_SNR :: float32

text \<open>
  The getters of the protocol buffer messages are nil-safe; a message without a MAC
  payload yields a nil pointer (\<open>None\<close>), whose fields cannot be read.
\<close>

record DeduplicatedUplinkMessage =
  up_MACPayload :: "MACPayload option"
  response_MACPayload :: "MACPayload option"
  GatewayMetadata :: "RxMetadata list"
  up_FrequencyPlan :: string
  up_DataRate :: string

record DownlinkMessage =
  down_MACPayload :: "MACPayload option"

record Redundancy =
  ChMaskCntl :: uint8
  NbRep :: uint8

text \<open>\<open>lorawan.LinkADRReqPayload\<close>; its \<open>ChMask\<close> is an array of 16 booleans.\<close>

record LinkADRReqPayload =
  req_DataRate :: uint8
  req_TXPower :: uint8
  ChMask :: "bool list"
  req_Redundancy :: Redundancy

text \<open>
  What the engine calls outside its package: \<open>band.Get\<close>, \<open>bestSNR\<close> and
  the \<open>MarshalBinary\<close> of the LinkADRReq payload; and the platform it runs on.
\<close>

record externals =
  band_Get :: "string \<Rightarrow> FrequencyPlan \<times> error option"
  bestSNR :: "RxMetadata list \<Rightarrow> float32"
  MarshalBinary :: "LinkADRReqPayload \<Rightarrow> uint8 list \<times> error option"
  runs_on :: platform

subsection \<open>handleUplinkADR\<close>

definition store_history :: "networkServer \<Rightarrow> Device \<Rightarrow> FrameHistory \<Rightarrow> networkServer" where
  "store_history n dev h =
     n\<lparr>devices_Frames :=
         (devices_Frames n)((AppEUI dev, DevEUI dev) :=
            (Some h, snd (devices_Frames n (AppEUI dev, DevEUI dev))))\<rparr>"

definition handleUplinkADR ::
  "externals \<Rightarrow> networkServer \<Rightarrow> DeduplicatedUplinkMessage \<Rightarrow> Device
     \<Rightarrow> outcome \<times> networkServer \<times> DeduplicatedUplinkMessage \<times> Device" where
  "handleUplinkADR ext n message dev =
     (let lorawanUplinkMAC = up_MACPayload message;
          lorawanDownlinkMAC = response_MACPayload message
      in case devices_Frames n (AppEUI dev, DevEUI dev) of
           (history, Some err) \<Rightarrow> (Failure err, n, message, dev)
         | (history, None) \<Rightarrow>
        (case lorawanUplinkMAC of
           None \<Rightarrow> (Panic, n, message, dev)
         | Some up \<Rightarrow>
             if mac_ADR up then
               (case history of
                  None \<Rightarrow> (Panic, n, message, dev)
                | Some h \<Rightarrow>
                    let h' = snd (Push h \<lparr>FCnt = mac_FCnt up,
                                   SNR = bestSNR ext (GatewayMetadata message),
                                   GatewayCount = of_nat (length (GatewayMetadata message))\<rparr>);
                        n' = store_history n dev h';
                        adr1 = (if Band (ADR dev) = []
                                then (ADR dev)\<lparr>Band := up_FrequencyPlan message\<rparr>
                                else ADR dev);
                        dataRate = up_DataRate message;
                        adr2 = (if DataRate adr1 \<noteq> dataRate
                                then adr1\<lparr>DataRate := dataRate, SendReq := True\<rparr>
                                else adr1)
                    in if mac_ADRAckReq up then
                         (case lorawanDownlinkMAC of
                            None \<Rightarrow> (Panic, n', message, dev\<lparr>ADR := adr2\<lparr>SendReq := True\<rparr>\<rparr>)
                          | Some down \<Rightarrow>
                              (Success, n',
                               message\<lparr>response_MACPayload := Some (down\<lparr>mac_Ack := True\<rparr>)\<rparr>,
                               dev\<lparr>ADR := adr2\<lparr>SendReq := True\<rparr>\<rparr>))
                       else (Success, n', message, dev\<lparr>ADR := adr2\<rparr>))
             else
               (case history of
                  None \<Rightarrow> (Panic, n, message, dev)
                | Some h \<Rightarrow>
                    (case Clear h of
                       (Some err, h') \<Rightarrow> (Failure err, store_history n dev h', message, dev)
                     | (None, h') \<Rightarrow>
                         (Success, store_history n dev h', message,
                          dev\<lparr>ADR := (ADR dev)\<lparr>SendReq := False, DataRate := [],
                                               TxPower := 0, NbTrans := 0\<rparr>\<rparr>)))))"

subsection \<open>handleDownlinkADR\<close>

text \<open>Lines 143 to 162: the retransmission count proposed for the candidate settings.\<close>

definition proposed_nbTrans ::
  "externals \<Rightarrow> Device \<Rightarrow> Frame list \<Rightarrow> string \<Rightarrow> go_int \<Rightarrow> go_int" where
  "proposed_nbTrans ext dev frames dataRate txPower =
     (let nbTrans = NbTrans (ADR dev)
      in if DataRate (ADR dev) = dataRate \<and> TxPower (ADR dev) = txPower
            \<and> \<not> DisableFCntCheck dev
         then
           let lossPercentage = lossPercentage (runs_on ext) frames;
               nbTrans = (if lossPercentage \<le>s 5 then nbTrans - 1
                          else if lossPercentage \<le>s 10 then nbTrans
                          else if lossPercentage \<le>s 30 then nbTrans + 1
                          else nbTrans + 2);
               nbTrans = (if nbTrans <s 1 then 1 else nbTrans);
               nbTrans = (if 3 <s nbTrans then 3 else nbTrans)
           in nbTrans
         else nbTrans)"

text \<open>
  Lines 179 to 185: the channel mask. Writing \<open>ChMask[i]\<close> for a channel index beyond the
  16 entries of the array panics (\<open>None\<close>).
\<close>

fun ChMask_loop :: "go_int \<Rightarrow> nat \<Rightarrow> Channel list \<Rightarrow> bool list \<Rightarrow> bool list option" where
  "ChMask_loop drIDx i [] chMask = Some chMask"
| "ChMask_loop drIDx i (ch # chs) chMask =
     (if drIDx \<in> set (DataRates ch)
      then (if i < length chMask then ChMask_loop drIDx (i + 1) chs (chMask[i := True])
            else None)
      else ChMask_loop drIDx (i + 1) chs chMask)"

text \<open>Lines 188 to 200: remove a queued LinkADRReq and append the new one.\<close>

fun remove_LinkADRReq :: "MACCommand list \<Rightarrow> MACCommand list \<Rightarrow> MACCommand list" where
  "remove_LinkADRReq fOpts [] = fOpts"
| "remove_LinkADRReq fOpts (existing # rest) =
     remove_LinkADRReq (if CID existing \<noteq> LinkADRReq then fOpts @ [existing] else fOpts) rest"

definition splice_LinkADRReq :: "MACCommand list \<Rightarrow> uint8 list \<Rightarrow> MACCommand list" where
  "splice_LinkADRReq queued responsePayload =
     remove_LinkADRReq [] queued @ [\<lparr>CID = LinkADRReq, Payload = responsePayload\<rparr>]"

text \<open>Lines 167 to 202: persist the new settings and put the command into the message.\<close>

definition send_LinkADRReq ::
  "externals \<Rightarrow> FrequencyPlan \<Rightarrow> DownlinkMessage \<Rightarrow> Device \<Rightarrow> string \<Rightarrow> go_int \<Rightarrow> go_int
     \<Rightarrow> go_int \<Rightarrow> go_int \<Rightarrow> outcome \<times> DownlinkMessage \<times> Device" where
  "send_LinkADRReq ext fp message dev dataRate txPower nbTrans drIDx powerIDx =
     (let dev = dev\<lparr>ADR := (ADR dev)\<lparr>DataRate := dataRate, TxPower := txPower,
                                       NbTrans := nbTrans\<rparr>\<rparr>;
          lorawanDownlinkMAC = down_MACPayload message
      in case ChMask_loop drIDx 0 (UplinkChannels fp) (replicate 16 False) of
           None \<Rightarrow> (Panic, message, dev)
         | Some chMask \<Rightarrow>
             let response = \<lparr>req_DataRate = ucast drIDx, req_TXPower = ucast powerIDx,
                             ChMask = chMask,
                             req_Redundancy = \<lparr>ChMaskCntl = 0,
                                               NbRep = ucast (NbTrans (ADR dev))\<rparr>\<rparr>;
                 responsePayload = fst (MarshalBinary ext response)
             in case lorawanDownlinkMAC of
                  None \<Rightarrow> (Panic, message, dev)
                | Some mac \<Rightarrow>
                    (Success,
                     message\<lparr>down_MACPayload :=
                        Some (mac\<lparr>FOpts := splice_LinkADRReq (FOpts mac) responsePayload\<rparr>)\<rparr>,
                     dev))"

text \<open>
  Lines 127 to 166: the plan's candidate settings, their indices, and the comparison with
  the stored settings.
\<close>

definition propose_ADR ::
  "externals \<Rightarrow> FrequencyPlan \<Rightarrow> Frame list \<Rightarrow> DownlinkMessage \<Rightarrow> Device
     \<Rightarrow> outcome \<times> DownlinkMessage \<times> Device" where
  "propose_ADR ext fp frames message dev =
     (case plan_ADRSettings fp (DataRate (ADR dev)) (TxPower (ADR dev))
             (maxSNR frames) (float32_of_int (Margin (ADR dev))) of
        (dataRate, txPower, err) \<Rightarrow>
          if err = Some ErrADRUnavailable then (Success, message, dev)
          else
            case err of
              Some e \<Rightarrow> (Failure e, message, dev)
            | None \<Rightarrow>
            (case GetDataRateIndexFor fp dataRate of
               (drIDx, Some e) \<Rightarrow> (Failure e, message, dev)
             | (drIDx, None) \<Rightarrow>
                 let powerIDx =
                       (case GetTxPowerIndexFor fp txPower of
                          (powerIDx, None) \<Rightarrow> powerIDx
                        | (powerIDx, Some e) \<Rightarrow>
                            fst (GetTxPowerIndexFor fp (DefaultTXPower fp)));
                     nbTrans = proposed_nbTrans ext dev frames dataRate txPower
                 in if DataRate (ADR dev) = dataRate \<and> TxPower (ADR dev) = txPower
                       \<and> NbTrans (ADR dev) = nbTrans
                    then (Success, message, dev)
                    else send_LinkADRReq ext fp message dev dataRate txPower nbTrans
                           drIDx powerIDx))"

text \<open>Lines 119 to 124: the defaults for power and retransmissions, then the proposal.\<close>

definition calculate_ADR ::
  "externals \<Rightarrow> FrequencyPlan \<Rightarrow> Frame list \<Rightarrow> DownlinkMessage \<Rightarrow> Device
     \<Rightarrow> outcome \<times> DownlinkMessage \<times> Device" where
  "calculate_ADR ext fp frames message dev =
     (let dev = (if TxPower (ADR dev) = 0
                 then dev\<lparr>ADR := (ADR dev)\<lparr>TxPower := DefaultTXPower fp\<rparr>\<rparr>
                 else dev);
          dev = (if NbTrans (ADR dev) = 0
                 then dev\<lparr>ADR := (ADR dev)\<lparr>NbTrans := 1\<rparr>\<rparr>
                 else dev)
      in propose_ADR ext fp frames message dev)"

definition handleDownlinkADR ::
  "externals \<Rightarrow> networkServer \<Rightarrow> DownlinkMessage \<Rightarrow> Device
     \<Rightarrow> outcome \<times> DownlinkMessage \<times> Device" where
  "handleDownlinkADR ext n message dev =
     (if \<not> SendReq (ADR dev) then (Success, message, dev)
      else if 0 <s Failed (ADR dev) then (Success, message, dev)
      else
        case fst (devices_Frames n (AppEUI dev, DevEUI dev)) of
          None \<Rightarrow> (Panic, message, dev)
        | Some history \<Rightarrow>
        (case Get history of
           (frames, Some err) \<Rightarrow> (Failure err, message, dev)
         | (frames, None) \<Rightarrow>
        if length frames < FramesHistorySize then (Success, message, dev)
        else
          let frames = take FramesHistorySize frames
          in if DataRate (ADR dev) = [] then (Success, message, dev)
          else
            let dev = (if Margin (ADR dev) = 0
                       then dev\<lparr>ADR := (ADR dev)\<lparr>Margin := DefaultADRMargin\<rparr>\<rparr>
                       else dev)
            in if Band (ADR dev) = [] then (Success, message, dev)
            else
              case band_Get ext (Band (ADR dev)) of
                (fp, Some err) \<Rightarrow> (Failure err, message, dev)
              | (fp, None) \<Rightarrow> calculate_ADR ext fp frames message dev))"

text \<open>
  The settings once the defaults of lines 109 to 111 and 119 to 124 are in place; the
  statements below use it to name the state that the later exits leave behind.
\<close>

definition with_defaults :: "FrequencyPlan \<Rightarrow> Device \<Rightarrow> Device" where
  "with_defaults fp dev =
     dev\<lparr>ADR := (ADR dev)
       \<lparr>Margin := (if Margin (ADR dev) = 0 then DefaultADRMargin else Margin (ADR dev)),
        TxPower := (if TxPower (ADR dev) = 0 then DefaultTXPower fp else TxPower (ADR dev)),
        NbTrans := (if NbTrans (ADR dev) = 0 then 1 else NbTrans (ADR dev))\<rparr>\<rparr>"

section \<open>Data model of the gateway protocol (package protocol)\<close>

record 'p Packet =
  Version :: uint8
  Token :: "uint8 list"
  Identifier :: uint8
  GatewayId :: "uint8 list"
  packet_Payload :: "'p option"

definition PUSH_DATA :: uint8 where "PUSH_DATA = 0"
definition PUSH_ACK :: uint8 where "PUSH_ACK = 1"
definition PULL_DATA :: uint8 where "PULL_DATA = 2"
definition PULL_RESP :: uint8 where "PULL_RESP = 3"
definition PULL_ACK :: uint8 where "PULL_ACK = 4"

text \<open>
  \<open>Parse\<close> returns an error and a packet pointer, or panics with an index out of range.
  \<open>decodePayload\<close> is not among the sources and is a parameter.
\<close>

datatype 'p parse_outcome =
  Returned "error option" "'p Packet option"
| IndexOutOfRange

definition Parse ::
  "(uint8 list \<Rightarrow> error option \<times> 'p option) \<Rightarrow> uint8 list \<Rightarrow> 'p parse_outcome" where
  "Parse decodePayload raw =
     (let size = length raw
      in if size < 3 then Returned (Some (Err ''Invalid raw data format'')) None
         else if \<not> (0 < length raw \<and> 3 \<le> length raw \<and> 3 < length raw) then IndexOutOfRange
         else
           let packet = \<lparr>Version = raw ! 0, Token = take 2 (drop 1 raw),
                          Identifier = raw ! 3, GatewayId = [], packet_Payload = None\<rparr>
           in if Version packet \<noteq> 1
              then Returned (Some (Err ''Unreckognized protocol version'')) None
              else if Identifier packet > PULL_ACK
              then Returned (Some (Err ''Unreckognized protocol identifier'')) None
              else
                let packet = (if size \<ge> 12 \<and> Identifier packet = PULL_DATA
                              then packet\<lparr>GatewayId := take 8 (drop 4 raw)\<rparr>
                              else packet)
                in if size > 4 \<and> Identifier packet = PUSH_DATA
                      \<or> Identifier packet = PULL_RESP
                   then
                     (case decodePayload (drop 4 raw) of
                        (err, payload) \<Rightarrow>
                          Returned err (Some (packet\<lparr>packet_Payload := payload\<rparr>)))
                   else Returned None (Some packet))"

section \<open>The specification's retransmission rule\<close>

text \<open>
  The rule in the specification's words, on mathematical integers: the step chosen by the
  loss percentage, and the clamp to the closed range from 1 to 3. They are compared with
  \<open>proposed_nbTrans\<close> below.
\<close>

definition spec_loss_step :: "int \<Rightarrow> int" where
  "spec_loss_step loss =
     (if loss \<le> 5 then - 1 else if loss \<le> 10 then 0 else if loss \<le> 30 then 1 else 2)"

definition spec_clamp :: "int \<Rightarrow> int" where
  "spec_clamp raw = max 1 (min 3 raw)"

section \<open>The specification's loss percentage\<close>

text \<open>
  The formula in the specification's words, on mathematical integers:
  \<open>sentPackets = newest.FCnt - oldest.FCnt + 1\<close>,
  \<open>loss = sentPackets - numberOfSamplesInWindow\<close> and
  \<open>round(100 * loss / sentPackets)\<close>. It is compared with \<open>lossPercentage\<close> below.
\<close>

definition spec_lossPercentage :: "Frame list \<Rightarrow> int" where
  "spec_lossPercentage frames =
     (let newest = uint (FCnt (frames ! 0));
          oldest = uint (FCnt (frames ! (length frames - 1)));
          sentPackets = newest - oldest + 1;
          loss = sentPackets - int (length frames)
      in round (100 * rat_of_int loss / rat_of_int sentPackets))"

section \<open>Example inputs\<close>

text \<open>
  A window of 20 frames with the consecutive counters 119 down to 100, a device whose
  history holds it, and two frequency plans: one that keeps the data rate and the power it
  is asked about, and one that reports that ADR is unavailable.
\<close>

definition example_frames :: "Frame list" where
  "example_frames =
     map (\<lambda>c. \<lparr>FCnt = c, SNR = F32 5, GatewayCount = 1\<rparr>)
       [119, 118, 117, 116, 115, 114, 113, 112, 111, 110,
        109, 108, 107, 106, 105, 104, 103, 102, 101, 100]"

text \<open>A window of 20 frames with the counters 124 down to 100, five of them missing.\<close>

definition gapped_frames :: "Frame list" where
  "gapped_frames =
     map (\<lambda>c. \<lparr>FCnt = c, SNR = F32 5, GatewayCount = 1\<rparr>)
       [124, 123, 122, 121, 120, 118, 117, 116, 115, 113,
        112, 111, 110, 108, 107, 106, 105, 103, 101, 100]"

text \<open>
  A window of 20 frames that all carry the counter 5 (an uplink that was retransmitted),
  and one whose newest counter 99 is below the oldest counter 100 (a device that started
  counting again).
\<close>

definition repeated_frames :: "Frame list" where
  "repeated_frames = replicate 20 \<lparr>FCnt = 5, SNR = F32 5, GatewayCount = 1\<rparr>"

definition restarted_frames :: "Frame list" where
  "restarted_frames =
     map (\<lambda>c. \<lparr>FCnt = c, SNR = F32 5, GatewayCount = 1\<rparr>)
       [99, 118, 117, 116, 115, 114, 113, 112, 111, 110,
        109, 108, 107, 106, 105, 104, 103, 102, 101, 100]"

definition example_history :: FrameHistory where
  "example_history =
     \<lparr>samples = example_frames, push_error = None, get_error = None, clear_error = None\<rparr>"

definition example_server :: networkServer where
  "example_server = \<lparr>devices_Frames = (\<lambda>key. (Some example_history, None))\<rparr>"

definition steady_plan :: FrequencyPlan where
  "steady_plan =
     \<lparr>DefaultTXPower = 14,
      UplinkChannels = [\<lparr>DataRates = [0, 1, 2, 3, 4, 5]\<rparr>, \<lparr>DataRates = [6]\<rparr>],
      plan_ADRSettings = (\<lambda>dataRate txPower snr margin. (dataRate, txPower, None)),
      GetDataRateIndexFor = (\<lambda>dataRate. (5, None)),
      GetTxPowerIndexFor = (\<lambda>txPower. (1, None))\<rparr>"

definition unavailable_plan :: FrequencyPlan where
  "unavailable_plan =
     steady_plan\<lparr>plan_ADRSettings :=
       (\<lambda>dataRate txPower snr margin. ([], 0, Some ErrADRUnavailable))\<rparr>"

definition example_externals :: "FrequencyPlan \<Rightarrow> externals" where
  "example_externals fp =
     \<lparr>band_Get = (\<lambda>band. (fp, None)),
      bestSNR = (\<lambda>metadata. F32 0),
      MarshalBinary =
        (\<lambda>response. ([req_DataRate response, req_TXPower response,
                        NbRep (req_Redundancy response)], None)),
      runs_on = \<lparr>fused_multiply_add = False, int_of_nonfinite = 0\<rparr>\<rparr>"

definition example_device :: Device where
  "example_device =
     \<lparr>AppEUI = 1, DevEUI = 2,
      ADR = \<lparr>Band = ''EU_863_870'', Margin = 0, SendReq = True, Failed = 0,
             DataRate = ''SF7BW125'', TxPower = 14, NbTrans = 3\<rparr>,
      DisableFCntCheck = False\<rparr>"

definition example_mac :: MACPayload where
  "example_mac =
     \<lparr>mac_ADR = False, mac_ADRAckReq = False, mac_Ack = False, mac_FCnt = 7,
      FOpts = [\<lparr>CID = 2, Payload = []\<rparr>, \<lparr>CID = LinkADRReq, Payload = [0]\<rparr>,
               \<lparr>CID = 6, Payload = []\<rparr>]\<rparr>"

definition example_message :: DownlinkMessage where
  "example_message = \<lparr>down_MACPayload = Some example_mac\<rparr>"

definition example_uplink :: DeduplicatedUplinkMessage where
  "example_uplink =
     \<lparr>up_MACPayload = Some example_mac, response_MACPayload = None,
      GatewayMetadata = [], up_FrequencyPlan = ''EU_863_870'', up_DataRate = ''SF7BW125''\<rparr>"

section \<open>Properties\<close>

subsection \<open>maxSNR\<close>

lemma f32_le_refl: "a \<noteq> F32_NaN \<Longrightarrow> f32_le a a"
  by (cases a) (simp_all add: f32_le_def)

lemma f32_le_trans: "f32_le a b \<Longrightarrow> f32_le b c \<Longrightarrow> f32_le a c"
  by (cases a; cases b; cases c) (simp_all add: f32_le_def)

lemma f32_gt_le: "f32_gt a b \<Longrightarrow> f32_le b a"
  by (cases a; cases b) (simp_all add: f32_le_def)

lemma f32_gt_not_NaN: "f32_gt a b \<Longrightarrow> a \<noteq> F32_NaN"
  by (cases a; cases b) simp_all

lemma f32_gt_NaN: "\<not> f32_gt a F32_NaN"
  by (cases a) simp_all

lemma f32_gt_irrefl: "\<not> f32_gt a a"
  by (cases a) simp_all

lemma maxSNR_loop_NaN: "maxSNR_loop F32_NaN frames = F32_NaN"
  by (induction frames) (simp_all add: f32_gt_NaN)

lemma maxSNR_loop_greatest:
  assumes "mx \<noteq> F32_NaN"
  shows "maxSNR_loop mx frames \<in> insert mx (SNR ` set frames)
    \<and> f32_le mx (maxSNR_loop mx frames)
    \<and> (\<forall>f\<in>set frames. SNR f \<noteq> F32_NaN \<longrightarrow> f32_le (SNR f) (maxSNR_loop mx frames))"
  using assms
proof (induction frames arbitrary: mx)
  case Nil
  then show ?case by (simp add: f32_le_refl)
next
  case (Cons frame rest)
  define mx' where "mx' = (if f32_gt (SNR frame) mx then SNR frame else mx)"
  have nn: "mx' \<noteq> F32_NaN"
    using Cons.prems by (auto simp add: mx'_def dest: f32_gt_not_NaN)
  have le1: "f32_le mx mx'"
    using Cons.prems by (auto simp add: mx'_def f32_le_refl dest: f32_gt_le)
  have le2: "f32_le (SNR frame) mx'" if "SNR frame \<noteq> F32_NaN"
    using that Cons.prems by (auto simp add: mx'_def f32_le_refl f32_le_def f32_gt_irrefl)
  have step: "maxSNR_loop mx (frame # rest) = maxSNR_loop mx' rest"
    by (simp add: mx'_def)
  note ih = Cons.IH [OF nn]
  from ih have mem: "maxSNR_loop mx' rest \<in> insert mx' (SNR ` set rest)" by blast
  from ih have up: "f32_le mx' (maxSNR_loop mx' rest)" by blast
  from ih have all: "\<forall>f\<in>set rest. SNR f \<noteq> F32_NaN \<longrightarrow> f32_le (SNR f) (maxSNR_loop mx' rest)"
    by blast
  have "mx' = mx \<or> mx' = SNR frame" by (simp add: mx'_def)
  with mem have a: "maxSNR_loop mx' rest \<in> insert mx (SNR ` set (frame # rest))" by auto
  have b: "f32_le mx (maxSNR_loop mx' rest)"
    using le1 up by (rule f32_le_trans)
  have c: "\<forall>f\<in>set (frame # rest). SNR f \<noteq> F32_NaN \<longrightarrow> f32_le (SNR f) (maxSNR_loop mx' rest)"
    using all le2 up by (auto intro: f32_le_trans)
  from a b c show ?case unfolding step by blast
qed

lemma f32_le_F32: "f32_le (F32 x) (F32 y) \<longleftrightarrow> x \<le> y"
  by (auto simp add: f32_le_def)

text \<open>
  C8. On the empty window \<open>maxSNR\<close> is 0. On a non-empty window without NaN it is the
  maximum of the SNR fields: the SNR of one of its frames, and every SNR of the window is
  \<open><=\<close> it; when all SNRs are numbers it is the greatest of them. A NaN is not ordered:
  on a window whose first SNR is not NaN the result is the maximum of the SNRs that are not
  NaN, and on a window whose first SNR is NaN the result is NaN.
\<close>

theorem maxSNR_is_maximum:
  "maxSNR [] = F32 0
   \<and> (frames \<noteq> [] \<and> (\<forall>f\<in>set frames. SNR f \<noteq> F32_NaN) \<longrightarrow>
        maxSNR frames \<in> SNR ` set frames
        \<and> (\<forall>f\<in>set frames. f32_le (SNR f) (maxSNR frames)))
   \<and> (frames \<noteq> [] \<and> (\<forall>f\<in>set frames. SNR f = F32 (f32_number (SNR f))) \<longrightarrow>
        maxSNR frames = F32 (Max (f32_number ` SNR ` set frames)))
   \<and> (frames \<noteq> [] \<and> SNR (frames ! 0) \<noteq> F32_NaN \<longrightarrow>
        maxSNR frames \<in> SNR ` set frames \<and> maxSNR frames \<noteq> F32_NaN
        \<and> (\<forall>f\<in>set frames. SNR f \<noteq> F32_NaN \<longrightarrow> f32_le (SNR f) (maxSNR frames)))
   \<and> (frames \<noteq> [] \<and> SNR (frames ! 0) = F32_NaN \<longrightarrow> maxSNR frames = F32_NaN)"
proof -
  have first: "maxSNR frames \<in> SNR ` set frames \<and> maxSNR frames \<noteq> F32_NaN
      \<and> (\<forall>f\<in>set frames. SNR f \<noteq> F32_NaN \<longrightarrow> f32_le (SNR f) (maxSNR frames))"
    if ne: "frames \<noteq> []" and nn: "SNR (frames ! 0) \<noteq> F32_NaN"
  proof -
    from ne obtain f rest where fr: "frames = f # rest" by (cases frames) auto
    have m: "maxSNR frames = maxSNR_loop (SNR f) frames"
      using fr by (simp add: maxSNR_def)
    from nn fr have "SNR f \<noteq> F32_NaN" by simp
    from maxSNR_loop_greatest [OF this, of frames]
    have g: "maxSNR frames \<in> insert (SNR f) (SNR ` set frames)"
        "f32_le (SNR f) (maxSNR frames)"
        "\<forall>f\<in>set frames. SNR f \<noteq> F32_NaN \<longrightarrow> f32_le (SNR f) (maxSNR frames)"
      unfolding m by blast+
    have "insert (SNR f) (SNR ` set frames) = SNR ` set frames" using fr by auto
    with g(1) have "maxSNR frames \<in> SNR ` set frames" by simp
    moreover from g(2) have "maxSNR frames \<noteq> F32_NaN" by (simp add: f32_le_def)
    ultimately show ?thesis using g(3) by blast
  qed
  have nan: "maxSNR frames = F32_NaN" if ne: "frames \<noteq> []" and n: "SNR (frames ! 0) = F32_NaN"
    using ne n by (simp add: maxSNR_def maxSNR_loop_NaN del: maxSNR_loop.simps)
  have all: "maxSNR frames \<in> SNR ` set frames \<and> (\<forall>f\<in>set frames. f32_le (SNR f) (maxSNR frames))"
    if ne: "frames \<noteq> []" and nn: "\<forall>f\<in>set frames. SNR f \<noteq> F32_NaN"
  proof -
    from ne have "frames ! 0 \<in> set frames" by simp
    with nn have "SNR (frames ! 0) \<noteq> F32_NaN" by blast
    from first [OF ne this] nn show ?thesis by blast
  qed
  have fin: "maxSNR frames = F32 (Max (f32_number ` SNR ` set frames))"
    if ne: "frames \<noteq> []" and num: "\<forall>f\<in>set frames. SNR f = F32 (f32_number (SNR f))"
  proof -
    have nn: "\<forall>f\<in>set frames. SNR f \<noteq> F32_NaN"
    proof
      fix f assume "f \<in> set frames"
      with num have "SNR f = F32 (f32_number (SNR f))" by blast
      then show "SNR f \<noteq> F32_NaN" by (cases "SNR f") simp_all
    qed
    from all [OF ne nn] obtain g where g: "g \<in> set frames" "maxSNR frames = SNR g"
      and le: "\<forall>f\<in>set frames. f32_le (SNR f) (maxSNR frames)" by auto
    from num g have mg: "maxSNR frames = F32 (f32_number (SNR g))" by simp
    have "Max (f32_number ` SNR ` set frames) = f32_number (SNR g)"
    proof (rule Max_eqI)
      show "finite (f32_number ` SNR ` set frames)" by simp
      show "f32_number (SNR g) \<in> f32_number ` SNR ` set frames" using g(1) by blast
      fix y assume "y \<in> f32_number ` SNR ` set frames"
      then obtain f where f: "f \<in> set frames" "y = f32_number (SNR f)" by auto
      from le f(1) have "f32_le (SNR f) (maxSNR frames)" by blast
      with num f(1) mg have "f32_le (F32 (f32_number (SNR f))) (F32 (f32_number (SNR g)))"
        by simp
      then show "y \<le> f32_number (SNR g)" unfolding f(2) by (simp only: f32_le_F32)
    qed
    with mg show ?thesis by simp
  qed
  show ?thesis
    using first nan all fin by (simp add: maxSNR_def)
qed

theorem maxSNR_is_maximum_witness:
  "[\<lparr>FCnt = 3, SNR = F32 (- 5), GatewayCount = 1\<rparr>, \<lparr>FCnt = 2, SNR = F32 (7 / 2), GatewayCount = 2\<rparr>,
    \<lparr>FCnt = 1, SNR = F32 2, GatewayCount = 1\<rparr>] \<noteq> []
   \<and> maxSNR [\<lparr>FCnt = 3, SNR = F32 (- 5), GatewayCount = 1\<rparr>,
              \<lparr>FCnt = 2, SNR = F32 (7 / 2), GatewayCount = 2\<rparr>,
              \<lparr>FCnt = 1, SNR = F32 2, GatewayCount = 1\<rparr>] = F32 (Max {- 5, 7 / 2, 2})
   \<and> f32_le (F32 2) (maxSNR [\<lparr>FCnt = 3, SNR = F32 (- 5), GatewayCount = 1\<rparr>,
              \<lparr>FCnt = 2, SNR = F32 (7 / 2), GatewayCount = 2\<rparr>,
              \<lparr>FCnt = 1, SNR = F32 2, GatewayCount = 1\<rparr>])
   \<and> maxSNR [\<lparr>FCnt = 2, SNR = F32_NegInf, GatewayCount = 1\<rparr>,
              \<lparr>FCnt = 1, SNR = F32_NaN, GatewayCount = 1\<rparr>,
              \<lparr>FCnt = 0, SNR = F32_NegZero, GatewayCount = 1\<rparr>] \<noteq> F32_NaN
   \<and> maxSNR [\<lparr>FCnt = 2, SNR = F32_NaN, GatewayCount = 1\<rparr>,
              \<lparr>FCnt = 1, SNR = F32 2, GatewayCount = 1\<rparr>] = F32_NaN"
  using maxSNR_is_maximum
    [of "[\<lparr>FCnt = 3, SNR = F32 (- 5), GatewayCount = 1\<rparr>, \<lparr>FCnt = 2, SNR = F32 (7 / 2), GatewayCount = 2\<rparr>,
          \<lparr>FCnt = 1, SNR = F32 2, GatewayCount = 1\<rparr>]"]
    maxSNR_is_maximum
    [of "[\<lparr>FCnt = 2, SNR = F32_NegInf, GatewayCount = 1\<rparr>,
              \<lparr>FCnt = 1, SNR = F32_NaN, GatewayCount = 1\<rparr>,
              \<lparr>FCnt = 0, SNR = F32_NegZero, GatewayCount = 1\<rparr>]"]
    maxSNR_is_maximum
    [of "[\<lparr>FCnt = 2, SNR = F32_NaN, GatewayCount = 1\<rparr>,
              \<lparr>FCnt = 1, SNR = F32 2, GatewayCount = 1\<rparr>]"]
  by (simp add: maxSNR_def f32_le_def)

text \<open>
  The same two samples in the two orders: with the NaN first the result is NaN, which is
  not above the SNR 5 of the window; with the NaN last the result is 5.
\<close>

theorem maxSNR_NaN_counterexample:
  "maxSNR [\<lparr>FCnt = 2, SNR = F32_NaN, GatewayCount = 1\<rparr>,
           \<lparr>FCnt = 1, SNR = F32 5, GatewayCount = 1\<rparr>] = F32_NaN
   \<and> \<not> f32_le (F32 5) F32_NaN
   \<and> maxSNR [\<lparr>FCnt = 2, SNR = F32 5, GatewayCount = 1\<rparr>,
             \<lparr>FCnt = 1, SNR = F32_NaN, GatewayCount = 1\<rparr>] = F32 5"
  by (simp add: maxSNR_def f32_le_def)

subsection \<open>Facts about the example inputs\<close>

lemma example_frames_window:
  "length example_frames = 20" "take 20 example_frames = example_frames"
  by (simp_all add: example_frames_def)

lemma example_lookup:
  "devices_Frames example_server key = (Some example_history, None)"
  "Get example_history = (example_frames, None)"
  by (simp_all add: example_server_def example_history_def Get_def)

lemma example_band_Get: "band_Get (example_externals fp) band = (fp, None)"
  by (simp add: example_externals_def)

lemma example_ChMask:
  "ChMask_loop 5 0 (UplinkChannels steady_plan) (replicate 16 False)
     = Some (True # replicate 15 False)"
  by (simp add: steady_plan_def numeral_eq_Suc)

subsection \<open>The command list\<close>

lemma remove_LinkADRReq_filter:
  "remove_LinkADRReq fOpts queued = fOpts @ filter (\<lambda>c. CID c \<noteq> LinkADRReq) queued"
  by (induction queued arbitrary: fOpts) simp_all

lemma splice_LinkADRReq_eq:
  "splice_LinkADRReq queued p =
     filter (\<lambda>c. CID c \<noteq> LinkADRReq) queued @ [\<lparr>CID = LinkADRReq, Payload = p\<rparr>]"
  by (simp add: splice_LinkADRReq_def remove_LinkADRReq_filter)

text \<open>
  C7. When a proposal is accepted (lines 167 to 202) and the message carries a MAC payload,
  the new command list is the old one without its LinkADRReq commands, followed by the
  fresh LinkADRReq, whose payload is the encoding of the accepted data rate index, power
  index, channel mask and retransmission count: the fresh command is last, it is the only
  LinkADRReq, and the commands of other kinds are the old ones in their order.
\<close>

theorem send_LinkADRReq_splices:
  assumes mac: "down_MACPayload message = Some mac"
    and chm: "ChMask_loop drIDx 0 (UplinkChannels fp) (replicate 16 False) = Some chMask"
  shows "let response = \<lparr>req_DataRate = ucast drIDx, req_TXPower = ucast powerIDx,
                          ChMask = chMask,
                          req_Redundancy = \<lparr>ChMaskCntl = 0, NbRep = ucast nbTrans\<rparr>\<rparr>;
             new = \<lparr>CID = LinkADRReq, Payload = fst (MarshalBinary ext response)\<rparr>;
             fOpts = filter (\<lambda>c. CID c \<noteq> LinkADRReq) (FOpts mac) @ [new]
         in send_LinkADRReq ext fp message dev dataRate txPower nbTrans drIDx powerIDx =
              (Success, message\<lparr>down_MACPayload := Some (mac\<lparr>FOpts := fOpts\<rparr>)\<rparr>,
               dev\<lparr>ADR := (ADR dev)\<lparr>DataRate := dataRate, TxPower := txPower,
                                     NbTrans := nbTrans\<rparr>\<rparr>)
            \<and> last fOpts = new
            \<and> filter (\<lambda>c. CID c = LinkADRReq) fOpts = [new]
            \<and> filter (\<lambda>c. CID c \<noteq> LinkADRReq) fOpts
                = filter (\<lambda>c. CID c \<noteq> LinkADRReq) (FOpts mac)"
  using mac chm
  by (simp add: send_LinkADRReq_def Let_def splice_LinkADRReq_eq)

theorem send_LinkADRReq_splices_witness:
  "down_MACPayload example_message = Some example_mac
   \<and> ChMask_loop 5 0 (UplinkChannels steady_plan) (replicate 16 False)
       = Some (True # replicate 15 False)
   \<and> FOpts example_mac = [\<lparr>CID = 2, Payload = []\<rparr>, \<lparr>CID = LinkADRReq, Payload = [0]\<rparr>,
                           \<lparr>CID = 6, Payload = []\<rparr>]
   \<and> fst (snd (send_LinkADRReq (example_externals steady_plan) steady_plan
                  example_message example_device ''SF9BW125'' 11 2 5 1)) =
        \<lparr>down_MACPayload = Some (example_mac\<lparr>FOpts :=
           [\<lparr>CID = 2, Payload = []\<rparr>, \<lparr>CID = 6, Payload = []\<rparr>,
            \<lparr>CID = LinkADRReq, Payload = [5, 1, 2]\<rparr>]\<rparr>)\<rparr>"
proof -
  have mac: "down_MACPayload example_message = Some example_mac"
    by (simp add: example_message_def)
  from send_LinkADRReq_splices [OF mac example_ChMask,
      of 1 2 "example_externals steady_plan" example_device "''SF9BW125''" 11]
  have "send_LinkADRReq (example_externals steady_plan) steady_plan example_message
        example_device ''SF9BW125'' 11 2 5 1 =
      (Success,
       example_message\<lparr>down_MACPayload := Some (example_mac\<lparr>FOpts :=
          filter (\<lambda>c. CID c \<noteq> LinkADRReq) (FOpts example_mac)
            @ [\<lparr>CID = LinkADRReq, Payload = [5, 1, 2]\<rparr>]\<rparr>)\<rparr>,
       example_device\<lparr>ADR := (ADR example_device)\<lparr>DataRate := ''SF9BW125'', TxPower := 11,
                                                   NbTrans := 2\<rparr>\<rparr>)"
    by (simp add: Let_def example_externals_def)
  then have "fst (snd (send_LinkADRReq (example_externals steady_plan) steady_plan
                        example_message example_device ''SF9BW125'' 11 2 5 1)) =
            \<lparr>down_MACPayload = Some (example_mac\<lparr>FOpts :=
               [\<lparr>CID = 2, Payload = []\<rparr>, \<lparr>CID = 6, Payload = []\<rparr>,
                \<lparr>CID = LinkADRReq, Payload = [5, 1, 2]\<rparr>]\<rparr>)\<rparr>"
    by (simp add: example_mac_def example_message_def LinkADRReq_def)
  moreover have "FOpts example_mac = [\<lparr>CID = 2, Payload = []\<rparr>, \<lparr>CID = LinkADRReq, Payload = [0]\<rparr>,
                           \<lparr>CID = 6, Payload = []\<rparr>]"
    by (simp add: example_mac_def)
  ultimately show ?thesis using mac example_ChMask by blast
qed

subsection \<open>Parse\<close>

text \<open>
  C10. The guard \<open>size < 3\<close> lets an input of three bytes pass, and the read of
  \<open>raw[3]\<close> is then out of range: \<open>Parse\<close> panics on such an input.
\<close>

theorem Parse_three_bytes_panics:
  "Parse decodePayload [1, 0, 0] = IndexOutOfRange"
  by (simp add: Parse_def)

subsection \<open>handleUplinkADR\<close>

lemma store_history_same:
  assumes "devices_Frames n (AppEUI dev, DevEUI dev) = (Some h, err)"
  shows "store_history n dev h = n"
proof -
  have "(devices_Frames n)((AppEUI dev, DevEUI dev) := (Some h, err)) = devices_Frames n"
    using assms by (simp add: fun_upd_idem)
  then show ?thesis
    using assms by (simp add: store_history_def)
qed

text \<open>
  C6. For an uplink whose ADR bit is off, once the history of the device has been looked
  up: when the clear succeeds, the history is empty afterwards and the settings are reset
  to \<open>SendReq = false\<close>, \<open>DataRate = ""\<close>, \<open>TxPower = 0\<close>, \<open>NbTrans = 0\<close>; when the
  clear fails, its error is returned and nothing is changed.
\<close>

theorem handleUplinkADR_ADR_disabled:
  assumes up: "up_MACPayload message = Some up" and off: "\<not> mac_ADR up"
    and look: "devices_Frames n (AppEUI dev, DevEUI dev) = (Some h, None)"
  shows "(clear_error h = None \<longrightarrow>
            handleUplinkADR ext n message dev =
              (Success, store_history n dev (h\<lparr>samples := []\<rparr>), message,
               dev\<lparr>ADR := (ADR dev)\<lparr>SendReq := False, DataRate := [], TxPower := 0,
                                     NbTrans := 0\<rparr>\<rparr>)
            \<and> devices_Frames (store_history n dev (h\<lparr>samples := []\<rparr>)) (AppEUI dev, DevEUI dev)
                = (Some (h\<lparr>samples := []\<rparr>), None))
       \<and> (\<forall>e. clear_error h = Some e \<longrightarrow>
            handleUplinkADR ext n message dev = (Failure e, n, message, dev))"
proof -
  have same: "store_history n dev h = n"
    using look by (rule store_history_same)
  have stored: "devices_Frames (store_history n dev (h\<lparr>samples := []\<rparr>)) (AppEUI dev, DevEUI dev)
      = (Some (h\<lparr>samples := []\<rparr>), None)"
    using look by (simp add: store_history_def)
  show ?thesis
    using up off look same stored
    by (auto simp add: handleUplinkADR_def Clear_def Let_def)
qed

theorem handleUplinkADR_ADR_disabled_witness:
  "up_MACPayload example_uplink = Some example_mac \<and> \<not> mac_ADR example_mac
   \<and> devices_Frames example_server (AppEUI example_device, DevEUI example_device)
       = (Some example_history, None)
   \<and> clear_error example_history = None
   \<and> handleUplinkADR (example_externals steady_plan) example_server example_uplink
        example_device =
       (Success, store_history example_server example_device (example_history\<lparr>samples := []\<rparr>),
        example_uplink,
        example_device\<lparr>ADR := (ADR example_device)\<lparr>SendReq := False, DataRate := [],
                                                   TxPower := 0, NbTrans := 0\<rparr>\<rparr>)"
proof -
  have up: "up_MACPayload example_uplink = Some example_mac"
    by (simp add: example_uplink_def)
  have off: "\<not> mac_ADR example_mac"
    by (simp add: example_mac_def)
  have ok: "clear_error example_history = None"
    by (simp add: example_history_def)
  from handleUplinkADR_ADR_disabled
      [where ext = "example_externals steady_plan", OF up off example_lookup(1)]
    up off ok example_lookup(1)
  show ?thesis by simp
qed

subsection \<open>handleDownlinkADR: exits and defaults\<close>



lemma with_defaults_keeps:
  "SendReq (ADR (with_defaults fp dev)) = SendReq (ADR dev)"
  "Failed (ADR (with_defaults fp dev)) = Failed (ADR dev)"
  "DataRate (ADR (with_defaults fp dev)) = DataRate (ADR dev)"
  "Band (ADR (with_defaults fp dev)) = Band (ADR dev)"
  "AppEUI (with_defaults fp dev) = AppEUI dev"
  "DevEUI (with_defaults fp dev) = DevEUI dev"
  "DisableFCntCheck (with_defaults fp dev) = DisableFCntCheck dev"
  by (simp_all add: with_defaults_def)

lemma handleDownlinkADR_calculates:
  assumes "SendReq (ADR dev)" and "\<not> 0 <s Failed (ADR dev)"
    and "fst (devices_Frames n (AppEUI dev, DevEUI dev)) = Some history"
    and "Get history = (frames, None)" and "FramesHistorySize \<le> length frames"
    and "DataRate (ADR dev) \<noteq> []" and "Band (ADR dev) \<noteq> []"
    and "band_Get ext (Band (ADR dev)) = (fp, None)"
  shows "handleDownlinkADR ext n message dev =
     calculate_ADR ext fp (take FramesHistorySize frames) message
       (dev\<lparr>ADR := (ADR dev)\<lparr>Margin := (if Margin (ADR dev) = 0 then DefaultADRMargin
                                          else Margin (ADR dev))\<rparr>\<rparr>)"
  using assms by (simp add: handleDownlinkADR_def Let_def)

lemma calculate_ADR_with_defaults:
  "calculate_ADR ext fp frames message
       (dev\<lparr>ADR := (ADR dev)\<lparr>Margin := (if Margin (ADR dev) = 0 then DefaultADRMargin
                                          else Margin (ADR dev))\<rparr>\<rparr>) =
   propose_ADR ext fp frames message (with_defaults fp dev)"
  by (cases "TxPower (ADR dev) = 0"; cases "NbTrans (ADR dev) = 0")
     (simp_all add: calculate_ADR_def with_defaults_def Let_def)

lemma handleDownlinkADR_proposes:
  assumes "SendReq (ADR dev)" and "\<not> 0 <s Failed (ADR dev)"
    and "fst (devices_Frames n (AppEUI dev, DevEUI dev)) = Some history"
    and "Get history = (frames, None)" and "FramesHistorySize \<le> length frames"
    and "DataRate (ADR dev) \<noteq> []" and "Band (ADR dev) \<noteq> []"
    and "band_Get ext (Band (ADR dev)) = (fp, None)"
  shows "handleDownlinkADR ext n message dev =
     propose_ADR ext fp (take FramesHistorySize frames) message (with_defaults fp dev)"
  by (simp only: handleDownlinkADR_calculates [OF assms] calculate_ADR_with_defaults)


text \<open>
  C4. The exits on \<open>SendReq\<close>, on \<open>Failed\<close>, on a short history and on an empty data rate
  return success and leave the message and the settings as they are. The exit on an empty
  band returns success and leaves the message as it is; it comes after the margin default,
  so a zero \<open>Margin\<close> has become \<open>DefaultADRMargin\<close> and nothing else has changed.
\<close>

theorem handleDownlinkADR_early_exits:
  "(\<not> SendReq (ADR dev) \<or> 0 <s Failed (ADR dev) \<longrightarrow>
      handleDownlinkADR ext n message dev = (Success, message, dev))
   \<and> (SendReq (ADR dev) \<and> \<not> 0 <s Failed (ADR dev)
        \<and> fst (devices_Frames n (AppEUI dev, DevEUI dev)) = Some history
        \<and> Get history = (frames, None) \<longrightarrow>
        (length frames < FramesHistorySize \<or> DataRate (ADR dev) = [] \<longrightarrow>
           handleDownlinkADR ext n message dev = (Success, message, dev))
        \<and> (FramesHistorySize \<le> length frames \<and> DataRate (ADR dev) \<noteq> []
             \<and> Band (ADR dev) = [] \<longrightarrow>
           handleDownlinkADR ext n message dev =
             (Success, message,
              dev\<lparr>ADR := (ADR dev)\<lparr>Margin := (if Margin (ADR dev) = 0 then DefaultADRMargin
                                                else Margin (ADR dev))\<rparr>\<rparr>)))"
  by (auto simp add: handleDownlinkADR_def Let_def)

theorem handleDownlinkADR_early_exits_witness:
  "handleDownlinkADR (example_externals steady_plan) example_server example_message
      (example_device\<lparr>ADR := (ADR example_device)\<lparr>SendReq := False\<rparr>\<rparr>) =
     (Success, example_message, example_device\<lparr>ADR := (ADR example_device)\<lparr>SendReq := False\<rparr>\<rparr>)
   \<and> handleDownlinkADR (example_externals steady_plan) example_server example_message
      (example_device\<lparr>ADR := (ADR example_device)\<lparr>DataRate := []\<rparr>\<rparr>) =
     (Success, example_message, example_device\<lparr>ADR := (ADR example_device)\<lparr>DataRate := []\<rparr>\<rparr>)
   \<and> handleDownlinkADR (example_externals steady_plan) example_server example_message
      (example_device\<lparr>ADR := (ADR example_device)\<lparr>Band := [], Margin := 7\<rparr>\<rparr>) =
     (Success, example_message,
      example_device\<lparr>ADR := (ADR example_device)\<lparr>Band := [], Margin := 7\<rparr>\<rparr>)"
  using
    handleDownlinkADR_early_exits
      [of "example_device\<lparr>ADR := (ADR example_device)\<lparr>SendReq := False\<rparr>\<rparr>"
          "example_externals steady_plan" example_server example_message
          example_history example_frames]
    handleDownlinkADR_early_exits
      [of "example_device\<lparr>ADR := (ADR example_device)\<lparr>DataRate := []\<rparr>\<rparr>"
          "example_externals steady_plan" example_server example_message
          example_history example_frames]
    handleDownlinkADR_early_exits
      [of "example_device\<lparr>ADR := (ADR example_device)\<lparr>Band := [], Margin := 7\<rparr>\<rparr>"
          "example_externals steady_plan" example_server example_message
          example_history example_frames]
  by (simp add: example_lookup example_frames_window FramesHistorySize_def example_device_def)

theorem handleDownlinkADR_empty_band_counterexample:
  "Band (ADR (example_device\<lparr>ADR := (ADR example_device)\<lparr>Band := []\<rparr>\<rparr>)) = []
   \<and> Margin (ADR (example_device\<lparr>ADR := (ADR example_device)\<lparr>Band := []\<rparr>\<rparr>)) = 0
   \<and> handleDownlinkADR (example_externals steady_plan) example_server example_message
        (example_device\<lparr>ADR := (ADR example_device)\<lparr>Band := []\<rparr>\<rparr>) =
       (Success, example_message,
        example_device\<lparr>ADR := (ADR example_device)\<lparr>Band := [], Margin := 15\<rparr>\<rparr>)
   \<and> snd (snd (handleDownlinkADR (example_externals steady_plan) example_server example_message
        (example_device\<lparr>ADR := (ADR example_device)\<lparr>Band := []\<rparr>\<rparr>)))
       \<noteq> example_device\<lparr>ADR := (ADR example_device)\<lparr>Band := []\<rparr>\<rparr>"
  by (simp add: handleDownlinkADR_def Let_def example_lookup example_frames_window
      FramesHistorySize_def DefaultADRMargin_def example_device_def)

text \<open>
  C3. When the plan reports that ADR is unavailable, the call returns success and leaves
  the message as it is. The settings are the stored ones with the defaults in place
  (a zero \<open>Margin\<close>, \<open>TxPower\<close> or \<open>NbTrans\<close> replaced by its default); they are
  unchanged when none of the three was zero.
\<close>

theorem handleDownlinkADR_ADR_unavailable:
  assumes "SendReq (ADR dev)" and "\<not> 0 <s Failed (ADR dev)"
    and "fst (devices_Frames n (AppEUI dev, DevEUI dev)) = Some history"
    and "Get history = (frames, None)" and "FramesHistorySize \<le> length frames"
    and "DataRate (ADR dev) \<noteq> []" and "Band (ADR dev) \<noteq> []"
    and "band_Get ext (Band (ADR dev)) = (fp, None)"
    and "plan_ADRSettings fp (DataRate (ADR dev)) (TxPower (ADR (with_defaults fp dev)))
           (maxSNR (take FramesHistorySize frames))
           (float32_of_int (Margin (ADR (with_defaults fp dev))))
         = (dataRate, txPower, Some ErrADRUnavailable)"
  shows "handleDownlinkADR ext n message dev = (Success, message, with_defaults fp dev)
    \<and> (Margin (ADR dev) \<noteq> 0 \<and> TxPower (ADR dev) \<noteq> 0 \<and> NbTrans (ADR dev) \<noteq> 0
        \<longrightarrow> handleDownlinkADR ext n message dev = (Success, message, dev))"
proof -
  have "handleDownlinkADR ext n message dev =
      propose_ADR ext fp (take FramesHistorySize frames) message (with_defaults fp dev)"
    by (rule handleDownlinkADR_proposes [OF assms(1-8)])
  also have "\<dots> = (Success, message, with_defaults fp dev)"
    using assms(9) by (simp add: propose_ADR_def with_defaults_keeps)
  finally have main:
    "handleDownlinkADR ext n message dev = (Success, message, with_defaults fp dev)" .
  have "with_defaults fp dev = dev"
    if "Margin (ADR dev) \<noteq> 0 \<and> TxPower (ADR dev) \<noteq> 0 \<and> NbTrans (ADR dev) \<noteq> 0"
    using that by (simp add: with_defaults_def)
  with main show ?thesis by simp
qed

theorem handleDownlinkADR_ADR_unavailable_witness:
  "snd (snd (plan_ADRSettings unavailable_plan ''SF7BW125'' 14 (maxSNR example_frames)
               (float32_of_int 9))) = Some ErrADRUnavailable
   \<and> handleDownlinkADR (example_externals unavailable_plan) example_server example_message
        (example_device\<lparr>ADR := (ADR example_device)\<lparr>Margin := 9\<rparr>\<rparr>) =
       (Success, example_message, example_device\<lparr>ADR := (ADR example_device)\<lparr>Margin := 9\<rparr>\<rparr>)"
proof -
  let ?dev = "example_device\<lparr>ADR := (ADR example_device)\<lparr>Margin := 9\<rparr>\<rparr>"
  have plan: "plan_ADRSettings unavailable_plan dr p snr m = ([], 0, Some ErrADRUnavailable)"
    for dr p snr m
    by (simp add: unavailable_plan_def)
  have "handleDownlinkADR (example_externals unavailable_plan) example_server example_message
          ?dev = (Success, example_message, with_defaults unavailable_plan ?dev)
    \<and> (Margin (ADR ?dev) \<noteq> 0 \<and> TxPower (ADR ?dev) \<noteq> 0 \<and> NbTrans (ADR ?dev) \<noteq> 0
        \<longrightarrow> handleDownlinkADR (example_externals unavailable_plan) example_server
              example_message ?dev = (Success, example_message, ?dev))"
    by (rule handleDownlinkADR_ADR_unavailable
          [where history = example_history and frames = example_frames])
       (simp_all add: example_lookup example_band_Get example_frames_window
          FramesHistorySize_def plan example_device_def)
  then show ?thesis
    by (simp add: plan example_device_def with_defaults_def)
qed

theorem handleDownlinkADR_ADR_unavailable_counterexample:
  "snd (snd (plan_ADRSettings unavailable_plan ''SF7BW125'' 14 (maxSNR example_frames)
               (float32_of_int DefaultADRMargin))) = Some ErrADRUnavailable
   \<and> Margin (ADR example_device) = 0
   \<and> handleDownlinkADR (example_externals unavailable_plan) example_server example_message
        example_device =
       (Success, example_message, example_device\<lparr>ADR := (ADR example_device)\<lparr>Margin := 15\<rparr>\<rparr>)
   \<and> snd (snd (handleDownlinkADR (example_externals unavailable_plan) example_server
                  example_message example_device)) \<noteq> example_device"
  by (simp add: handleDownlinkADR_def calculate_ADR_def propose_ADR_def Let_def example_lookup
      example_band_Get example_frames_window FramesHistorySize_def DefaultADRMargin_def
      example_device_def unavailable_plan_def)

text \<open>
  C9. The error that \<open>n.devices.Frames\<close> returns has no influence on
  \<open>handleDownlinkADR\<close>: two servers that return the same history, with whatever errors,
  give the same result. Past the first two guards, an error of \<open>Get\<close> on that history is
  what the call returns.
\<close>

theorem handleDownlinkADR_lookup_error_dropped:
  assumes "devices_Frames n (AppEUI dev, DevEUI dev) = (history, err1)"
    and "devices_Frames n' (AppEUI dev, DevEUI dev) = (history, err2)"
  shows "handleDownlinkADR ext n message dev = handleDownlinkADR ext n' message dev
     \<and> (\<forall>h frames e. SendReq (ADR dev) \<and> \<not> 0 <s Failed (ADR dev) \<and> history = Some h
           \<and> Get h = (frames, Some e) \<longrightarrow>
           handleDownlinkADR ext n message dev = (Failure e, message, dev))"
  using assms
  by (simp add: handleDownlinkADR_def Let_def)

theorem handleDownlinkADR_lookup_error_dropped_witness:
  "handleDownlinkADR (example_externals steady_plan) example_server example_message
      example_device =
   handleDownlinkADR (example_externals steady_plan)
      \<lparr>devices_Frames = (\<lambda>key. (Some example_history, Some (Err ''lookup failed'')))\<rparr>
      example_message example_device
   \<and> handleDownlinkADR (example_externals steady_plan)
      \<lparr>devices_Frames = (\<lambda>key. (Some (example_history\<lparr>get_error := Some (Err ''get failed'')\<rparr>),
                                  Some (Err ''lookup failed'')))\<rparr>
      example_message example_device = (Failure (Err ''get failed''), example_message, example_device)"
  using
    handleDownlinkADR_lookup_error_dropped
      [of example_server example_device "Some example_history" None
          "\<lparr>devices_Frames = (\<lambda>key. (Some example_history, Some (Err ''lookup failed'')))\<rparr>"
          "Some (Err ''lookup failed'')" "example_externals steady_plan" example_message]
    handleDownlinkADR_lookup_error_dropped
      [of "\<lparr>devices_Frames =
             (\<lambda>key. (Some (example_history\<lparr>get_error := Some (Err ''get failed'')\<rparr>),
                      Some (Err ''lookup failed'')))\<rparr>"
          example_device "Some (example_history\<lparr>get_error := Some (Err ''get failed'')\<rparr>)"
          "Some (Err ''lookup failed'')"
          "\<lparr>devices_Frames =
             (\<lambda>key. (Some (example_history\<lparr>get_error := Some (Err ''get failed'')\<rparr>),
                      Some (Err ''lookup failed'')))\<rparr>"
          "Some (Err ''lookup failed'')" "example_externals steady_plan" example_message]
  by (simp add: example_lookup Get_def example_device_def)

subsection \<open>Evaluating the float64 model\<close>

lemma bitlen_numeral:
  "bitlen 1 = 1"
  "bitlen (numeral Num.One) = 1"
  "bitlen (numeral (Num.Bit0 k)) = bitlen (numeral k) + 1"
  "bitlen (numeral (Num.Bit1 k)) = bitlen (numeral k) + 1"
proof -
  show "bitlen 1 = 1" by (subst compute_bitlen) simp
  show "bitlen (numeral Num.One) = 1" by (subst compute_bitlen) simp
  show "bitlen (numeral (Num.Bit0 k)) = bitlen (numeral k) + 1"
    by (subst compute_bitlen) simp
  show "bitlen (numeral (Num.Bit1 k)) = bitlen (numeral k) + 1"
    by (subst compute_bitlen) simp
qed

lemma floor_rat_numeral:
  "\<lfloor>numeral a / numeral b :: rat\<rfloor> = numeral a div numeral b"
  "\<lfloor>1 / numeral b :: rat\<rfloor> = 1 div numeral b"
  "\<lceil>numeral a / numeral b :: rat\<rceil> = - ((- numeral a) div numeral b)"
  "\<lceil>1 / numeral b :: rat\<rceil> = - ((- 1) div numeral b)"
proof -
  show "\<lfloor>numeral a / numeral b :: rat\<rfloor> = numeral a div numeral b"
    by (metis floor_divide_of_int_eq of_int_numeral)
  show "\<lfloor>1 / numeral b :: rat\<rfloor> = 1 div numeral b"
    by (metis floor_divide_of_int_eq of_int_numeral of_int_1)
  show "\<lceil>numeral a / numeral b :: rat\<rceil> = - ((- numeral a) div numeral b)"
    by (metis ceiling_def floor_divide_of_int_eq minus_divide_left of_int_minus of_int_numeral)
  show "\<lceil>1 / numeral b :: rat\<rceil> = - ((- 1) div numeral b)"
    by (metis ceiling_def floor_divide_of_int_eq minus_divide_left of_int_minus of_int_numeral
        of_int_1)
qed

lemmas float_eval = round64_def round_sig_def ilog2_def round_half_even_def bitlen_numeral
  floor_rat_numeral f64_of_uint32_def Let_def

lemma lossPercentage_example_frames: "lossPercentage pf example_frames = 0"
  by (cases "fused_multiply_add pf")
     (simp_all add: lossPercentage_def example_frames_def float_eval)

lemma lossPercentage_two_frames:
  "lossPercentage pf [\<lparr>FCnt = 110, SNR = F32 5, GatewayCount = 1\<rparr>,
                      \<lparr>FCnt = 100, SNR = F32 5, GatewayCount = 1\<rparr>] = 82"
  by (cases "fused_multiply_add pf") (simp_all add: lossPercentage_def float_eval)

subsection \<open>The retransmission count\<close>

text \<open>
  C5. When the candidate data rate or power differs from the stored one, or the frame
  counter check is disabled, the retransmission count is the stored one. Otherwise it is
  the stored count plus the step of the loss percentage (minus one up to 5, zero up to 10,
  plus one up to 30, plus two above), computed in the 64 bits of \<open>int\<close>, and clamped
  to the closed range from 1 to 3.
\<close>

theorem proposed_nbTrans_adjustment:
  "(\<not> (DataRate (ADR dev) = dataRate \<and> TxPower (ADR dev) = txPower \<and> \<not> DisableFCntCheck dev)
      \<longrightarrow> proposed_nbTrans ext dev frames dataRate txPower = NbTrans (ADR dev))
   \<and> (DataRate (ADR dev) = dataRate \<and> TxPower (ADR dev) = txPower \<and> \<not> DisableFCntCheck dev
      \<longrightarrow> sint (proposed_nbTrans ext dev frames dataRate txPower) =
            spec_clamp (sint (NbTrans (ADR dev)
               + word_of_int (spec_loss_step
                    (sint (lossPercentage (runs_on ext) frames)))))
          \<and> 1 \<le> sint (proposed_nbTrans ext dev frames dataRate txPower)
          \<and> sint (proposed_nbTrans ext dev frames dataRate txPower) \<le> 3)"
  by (auto simp add: proposed_nbTrans_def spec_loss_step_def spec_clamp_def Let_def
      word_sle_eq word_sless_alt)

theorem proposed_nbTrans_adjustment_witness:
  "proposed_nbTrans (example_externals steady_plan) example_device example_frames
      ''SF9BW125'' 14 = 3
   \<and> proposed_nbTrans (example_externals steady_plan)
        (example_device\<lparr>DisableFCntCheck := True\<rparr>) example_frames ''SF7BW125'' 14 = 3
   \<and> sint (proposed_nbTrans (example_externals steady_plan) example_device example_frames
        ''SF7BW125'' 14) = 2
   \<and> sint (NbTrans (ADR (example_device\<lparr>ADR := (ADR example_device)\<lparr>NbTrans := 0\<rparr>\<rparr>))
            + word_of_int (spec_loss_step 0)) = - 1
   \<and> sint (proposed_nbTrans (example_externals steady_plan)
        (example_device\<lparr>ADR := (ADR example_device)\<lparr>NbTrans := 0\<rparr>\<rparr>) example_frames
        ''SF7BW125'' 14) = 1
   \<and> sint (NbTrans (ADR example_device) + word_of_int (spec_loss_step 82)) = 5
   \<and> sint (proposed_nbTrans (example_externals steady_plan) example_device
        [\<lparr>FCnt = 110, SNR = F32 5, GatewayCount = 1\<rparr>, \<lparr>FCnt = 100, SNR = F32 5, GatewayCount = 1\<rparr>]
        ''SF7BW125'' 14) = 3"
  using
    proposed_nbTrans_adjustment
      [of example_device "''SF9BW125''" 14 "example_externals steady_plan" example_frames]
    proposed_nbTrans_adjustment
      [of "example_device\<lparr>DisableFCntCheck := True\<rparr>" "''SF7BW125''" 14
          "example_externals steady_plan" example_frames]
    proposed_nbTrans_adjustment
      [of example_device "''SF7BW125''" 14 "example_externals steady_plan" example_frames]
    proposed_nbTrans_adjustment
      [of "example_device\<lparr>ADR := (ADR example_device)\<lparr>NbTrans := 0\<rparr>\<rparr>" "''SF7BW125''" 14
          "example_externals steady_plan" example_frames]
    proposed_nbTrans_adjustment
      [of example_device "''SF7BW125''" 14 "example_externals steady_plan"
          "[\<lparr>FCnt = 110, SNR = F32 5, GatewayCount = 1\<rparr>, \<lparr>FCnt = 100, SNR = F32 5, GatewayCount = 1\<rparr>]"]
  by (simp add: example_device_def lossPercentage_example_frames lossPercentage_two_frames
      spec_loss_step_def spec_clamp_def)

subsection \<open>Invoking handleDownlinkADR twice\<close>






subsection \<open>Rounding error of the float64 model\<close>

text \<open>
  Rounding to nearest keeps a non-negative number within the relative error \<open>2\<^sup>-\<^sup>5\<^sup>3\<close>.
  Hence the three rounded operations of \<open>lossPercentage\<close> stay so close to
  \<open>100 * loss / sentPackets + 1/2\<close> that the floor is the same, unless that number is an
  integer (a tie of the rounding).
\<close>

lemma round_half_even_error: "\<bar>of_int (round_half_even x) - x\<bar> \<le> 1 / 2"
proof -
  have f: "of_int \<lfloor>x\<rfloor> \<le> x" "x < of_int \<lfloor>x\<rfloor> + 1" by linarith+
  show ?thesis
    using f by (auto simp add: round_half_even_def Let_def abs_le_iff)
qed

lemma ilog2_bounds:
  assumes "0 < x"
  shows "2 powi (ilog2 x) \<le> x" and "x < 2 powi (ilog2 x + 1)"
proof -
  have both: "2 powi (ilog2 x) \<le> x \<and> x < 2 powi (ilog2 x + 1)"
  proof (cases "1 \<le> x")
    case True
    define n where "n = \<lfloor>x\<rfloor>"
    have n1: "1 \<le> n" using True by (simp add: n_def le_floor_iff)
    then have npos: "0 < n" by simp
    have b1: "1 \<le> bitlen n" using npos by (simp add: bitlen_alt_def)
    from bitlen_bounds [OF npos] have lo: "2 ^ nat (bitlen n - 1) \<le> n" and hi: "n < 2 ^ nat (bitlen n)"
      by auto
    have e: "ilog2 x = bitlen n - 1" using True by (simp add: ilog2_def n_def)
    have "(2::rat) powi (bitlen n - 1) = 2 ^ nat (bitlen n - 1)"
      using b1 by (simp add: power_int_def)
    also have "\<dots> = of_int (2 ^ nat (bitlen n - 1))" by simp
    also have "\<dots> \<le> of_int n" using lo by (simp only: of_int_le_iff)
    also have "\<dots> \<le> x" by (simp add: n_def)
    finally have A: "2 powi (ilog2 x) \<le> x" by (simp add: e)
    have "n + 1 \<le> 2 ^ nat (bitlen n)" using hi by simp
    then have "(of_int (n + 1) :: rat) \<le> of_int (2 ^ nat (bitlen n))" by (simp only: of_int_le_iff)
    moreover have "x < of_int (n + 1)" by (simp add: n_def) linarith
    moreover have "(2::rat) powi (bitlen n - 1 + 1) = of_int (2 ^ nat (bitlen n))"
      using b1 by (simp add: power_int_def)
    ultimately have B: "x < 2 powi (ilog2 x + 1)" by (simp add: e)
    from A B show ?thesis by simp
  next
    case False
    then have x1: "x < 1" by simp
    define y where "y = 1 / x"
    have y1: "1 < y" using assms x1 by (simp add: y_def)
    define m where "m = \<lceil>y\<rceil> - 1"
    have my: "of_int m < y" "y \<le> of_int m + 1"
      by (simp_all add: m_def) (linarith)+
    have mpos: "0 < m" using y1 my(2) 
      by (metis add.commute less_le_trans of_int_1 of_int_add of_int_less_iff zless_add1_eq less_add_same_cancel1 not_less order_less_imp_le zero_less_one)
    have b1: "1 \<le> bitlen m" using mpos by (simp add: bitlen_alt_def)
    from bitlen_bounds [OF mpos] have lo: "2 ^ nat (bitlen m - 1) \<le> m" and hi: "m < 2 ^ nat (bitlen m)"
      by auto
    have e: "ilog2 x = - bitlen m" using False by (simp add: ilog2_def m_def y_def)
    have "y \<le> of_int (m + 1)" using my(2) by simp
    also have "\<dots> \<le> of_int (2 ^ nat (bitlen m))" using hi by (simp only: of_int_le_iff)
    also have "\<dots> = 2 powi (bitlen m)" using b1 by (simp add: power_int_def)
    finally have "y \<le> 2 powi (bitlen m)" .
    then have "1 / (2 powi (bitlen m)) \<le> 1 / y"
      using y1 by (intro divide_left_mono) (auto intro!: mult_pos_pos)
    then have A: "2 powi (ilog2 x) \<le> x"
      using assms by (simp add: e y_def power_int_minus_divide)
    have "(2::rat) powi (bitlen m - 1) = of_int (2 ^ nat (bitlen m - 1))"
      using b1 by (simp add: power_int_def)
    also have "\<dots> \<le> of_int m" using lo by (simp only: of_int_le_iff)
    also have "\<dots> < y" using my(1) .
    finally have "2 powi (bitlen m - 1) < y" .
    then have "1 / y < 1 / (2 powi (bitlen m - 1))"
      using y1 by (intro divide_strict_left_mono) (auto intro!: mult_pos_pos)
    moreover have "(1::rat) / (2 powi (bitlen m - 1)) = 2 powi (- bitlen m + 1)"
      by (simp add: power_int_minus_divide [symmetric])
    ultimately have B: "x < 2 powi (ilog2 x + 1)"
      using assms by (simp add: e y_def)
    from A B show ?thesis by simp
  qed
  from both show "2 powi (ilog2 x) \<le> x" and "x < 2 powi (ilog2 x + 1)" by simp_all
qed

lemma round64_error:
  assumes "0 \<le> x"
  shows "\<bar>round64 x - x\<bar> \<le> x / 2 ^ 53"
proof (cases "x = 0")
  case True
  then show ?thesis by (simp add: round64_def round_sig_def)
next
  case False
  with assms have pos: "0 < x" by simp
  define e where "e = ilog2 x"
  define u :: rat where "u = 2 powi (e - 52)"
  have upos: "0 < u" by (simp add: u_def)
  have r: "round64 x = of_int (round_half_even (x / u)) * u"
    using pos by (simp add: round64_def round_sig_def Let_def u_def e_def)
  have "round64 x - x = (of_int (round_half_even (x / u)) - x / u) * u"
    using upos by (simp add: r field_simps)
  then have "\<bar>round64 x - x\<bar> = \<bar>of_int (round_half_even (x / u)) - x / u\<bar> * u"
    using upos by (simp add: abs_mult abs_of_pos)
  also have "\<dots> \<le> (1 / 2) * u"
    using upos round_half_even_error [of "x / u"] by (intro mult_right_mono) simp_all
  also have "\<dots> = 2 powi e / 2 ^ 53"
    by (simp add: u_def power_int_diff)
  also have "\<dots> \<le> x / 2 ^ 53"
    using ilog2_bounds(1) [OF pos] by (simp add: e_def divide_right_mono)
  finally show ?thesis .
qed

lemma round64_nonneg:
  assumes "0 \<le> x"
  shows "0 \<le> round64 x"
proof -
  have "x / 2 ^ 53 \<le> x" using assms by (simp add: field_simps)
  with round64_error [OF assms] have "\<bar>round64 x - x\<bar> \<le> x" by (rule order_trans)
  then show ?thesis by linarith
qed

lemma round64_upper:
  assumes "0 \<le> x"
  shows "round64 x \<le> 2 * x"
proof -
  have "x / 2 ^ 53 \<le> x" using assms by (simp add: field_simps)
  with round64_error [OF assms] have "\<bar>round64 x - x\<bar> \<le> x" by (rule order_trans)
  then show ?thesis by linarith
qed

lemma loss_chain_error:
  fixes q :: rat
  assumes q: "0 \<le> q"
  shows "\<bar>round64 (round64 (round64 q * 100) + 1 / 2) - (100 * q + 1 / 2)\<bar>
           \<le> (700 * q + 1 / 2) / 2 ^ 53"
proof -
  define x1 where "x1 = round64 q"
  define x2 where "x2 = round64 (x1 * 100)"
  define x3 where "x3 = round64 (x2 + 1 / 2)"
  have x1: "0 \<le> x1" "x1 \<le> 2 * q" "\<bar>x1 - q\<bar> \<le> q / 2 ^ 53"
    unfolding x1_def
    by (rule round64_nonneg [OF q], rule round64_upper [OF q], rule round64_error [OF q])
  have a1: "0 \<le> x1 * 100" using x1(1) by simp
  have x2: "0 \<le> x2" "x2 \<le> 2 * (x1 * 100)" "\<bar>x2 - x1 * 100\<bar> \<le> x1 * 100 / 2 ^ 53"
    unfolding x2_def
    by (rule round64_nonneg [OF a1], rule round64_upper [OF a1], rule round64_error [OF a1])
  have a2: "0 \<le> x2 + 1 / 2" using x2(1) by simp
  have x3: "\<bar>x3 - (x2 + 1 / 2)\<bar> \<le> (x2 + 1 / 2) / 2 ^ 53"
    unfolding x3_def by (rule round64_error [OF a2])
  have b2: "x2 \<le> 400 * q" using x2(2) x1(2) by simp
  have "\<bar>x3 - (100 * q + 1 / 2)\<bar>
          \<le> \<bar>x3 - (x2 + 1 / 2)\<bar> + \<bar>x2 - x1 * 100\<bar> + 100 * \<bar>x1 - q\<bar>"
    by (simp add: abs_le_iff) (auto simp add: abs_if)
  also have "\<dots> \<le> (x2 + 1 / 2) / 2 ^ 53 + x1 * 100 / 2 ^ 53 + 100 * (q / 2 ^ 53)"
    by (intro add_mono mult_left_mono x3 x2(3) x1(3)) simp
  also have "\<dots> \<le> (400 * q + 1 / 2) / 2 ^ 53 + (2 * q) * 100 / 2 ^ 53 + 100 * (q / 2 ^ 53)"
    using b2 x1(2) by (intro add_mono divide_right_mono) simp_all
  also have "\<dots> = (700 * q + 1 / 2) / 2 ^ 53"
    by (simp add: field_simps)
  finally show ?thesis by (simp add: x1_def x2_def x3_def)
qed

lemma loss_fused_error:
  fixes q :: rat
  assumes q: "0 \<le> q"
  shows "\<bar>round64 (round64 q * 100 + 1 / 2) - (100 * q + 1 / 2)\<bar>
           \<le> (700 * q + 1 / 2) / 2 ^ 53"
proof -
  define x1 where "x1 = round64 q"
  define x3 where "x3 = round64 (x1 * 100 + 1 / 2)"
  have x1: "0 \<le> x1" "x1 \<le> 2 * q" "\<bar>x1 - q\<bar> \<le> q / 2 ^ 53"
    unfolding x1_def
    by (rule round64_nonneg [OF q], rule round64_upper [OF q], rule round64_error [OF q])
  have a1: "0 \<le> x1 * 100 + 1 / 2" using x1(1) by simp
  have x3: "\<bar>x3 - (x1 * 100 + 1 / 2)\<bar> \<le> (x1 * 100 + 1 / 2) / 2 ^ 53"
    unfolding x3_def by (rule round64_error [OF a1])
  have "\<bar>x3 - (100 * q + 1 / 2)\<bar> \<le> \<bar>x3 - (x1 * 100 + 1 / 2)\<bar> + 100 * \<bar>x1 - q\<bar>"
    by (simp add: abs_le_iff) (auto simp add: abs_if)
  also have "\<dots> \<le> (x1 * 100 + 1 / 2) / 2 ^ 53 + 100 * (q / 2 ^ 53)"
    by (intro add_mono mult_left_mono x3 x1(3)) simp
  also have "\<dots> \<le> ((2 * q) * 100 + 1 / 2) / 2 ^ 53 + 100 * (q / 2 ^ 53)"
    using x1(2) by (intro add_mono divide_right_mono) simp_all
  also have "\<dots> \<le> (700 * q + 1 / 2) / 2 ^ 53"
    using q by (simp add: field_simps)
  finally show ?thesis by (simp add: x1_def x3_def)
qed

lemma loss_chain_floor:
  fixes l s :: nat
  assumes s: "0 < s" "s < 2 ^ 32" and l: "l < 2 ^ 32"
    and notie: "\<not> 2 * s dvd 200 * l + s"
  shows "\<lfloor>if fused then round64 (round64 (of_nat l / of_nat s) * 100 + 1 / 2)
          else round64 (round64 (round64 (of_nat l / of_nat s) * 100) + 1 / 2)\<rfloor>
           = \<lfloor>100 * (of_nat l / of_nat s) + 1 / 2 :: rat\<rfloor>"
proof -
  define S :: rat where "S = of_nat s"
  define L :: rat where "L = of_nat l"
  define q where "q = L / S"
  define t where "t = 100 * q + 1 / 2"
  define x3 where "x3 = (if fused then round64 (round64 q * 100 + 1 / 2)
                         else round64 (round64 (round64 q * 100) + 1 / 2))"
  define k where "k = (200 * l + s) div (2 * s)"
  define r where "r = (200 * l + s) mod (2 * s)"
  have Spos: "0 < S" and Sb: "S < 2 ^ 32" and Lnn: "0 \<le> L" and Lb: "L < 2 ^ 32"
    using s l by (simp_all add: S_def L_def)
  have qnn: "0 \<le> q" using Spos Lnn by (simp add: q_def)
  have r: "0 < r" "r < 2 * s"
    using notie s(1) by (auto simp add: r_def dvd_eq_mod_eq_0)
  have "200 * l + s = 2 * s * k + r"
    by (simp add: k_def r_def)
  then have "(of_nat (200 * l + s) :: rat) = of_nat (2 * s * k + r)" by simp
  then have N: "200 * L + S = 2 * S * of_nat k + of_nat r"
    by (simp add: S_def L_def)
  have t_eq: "t = of_nat k + of_nat r / (2 * S)"
  proof -
    have "t = (200 * L + S) / (2 * S)"
      using Spos by (simp add: t_def q_def field_simps)
    also have "\<dots> = (2 * S * of_nat k + of_nat r) / (2 * S)"
      by (simp only: N)
    also have "\<dots> = of_nat k + of_nat r / (2 * S)"
      using Spos by (simp add: field_simps)
    finally show ?thesis .
  qed
  have r_lo: "1 / (2 * S) \<le> of_nat r / (2 * S)"
    using r(1) Spos by (intro divide_right_mono) simp_all
  have "of_nat r \<le> (of_nat (2 * s - 1) :: rat)"
    using r(2) by (simp only: of_nat_le_iff)
  also have "\<dots> = 2 * S - 1"
    using s(1) by (simp add: S_def of_nat_diff)
  finally have "of_nat r / (2 * S) \<le> (2 * S - 1) / (2 * S)"
    using Spos by (intro divide_right_mono) simp_all
  also have "\<dots> = 1 - 1 / (2 * S)"
    using Spos by (simp add: field_simps)
  finally have r_hi: "of_nat r / (2 * S) \<le> 1 - 1 / (2 * S)" .
  have err: "\<bar>x3 - t\<bar> \<le> (700 * q + 1 / 2) / 2 ^ 53"
    unfolding x3_def t_def
    using loss_chain_error [OF qnn] loss_fused_error [OF qnn] by (cases fused) simp_all
  have small: "(700 * q + 1 / 2) / 2 ^ 53 < 1 / (2 * S)"
  proof -
    have "1400 * L + S < 2 ^ 53" using Lb Sb by simp
    then have "(1400 * L + S) / 2 ^ 53 < 1" by simp
    then have a: "(1400 * L + S) / 2 ^ 53 / (2 * S) < 1 / (2 * S)"
      using Spos by (intro divide_strict_right_mono) simp_all
    have b: "(1400 * L + S) / 2 ^ 53 / (2 * S) = (700 * q + 1 / 2) / 2 ^ 53"
      using Spos by (simp add: q_def field_simps)
    from a show ?thesis unfolding b .
  qed
  have lt: "\<bar>x3 - t\<bar> < 1 / (2 * S)"
    by (rule le_less_trans [OF err small])
  have close: "x3 - t < 1 / (2 * S)" "t - x3 < 1 / (2 * S)"
    using lt by linarith+
  have kk: "(of_int (int k) :: rat) = of_nat k" by simp
  have half: "0 < 1 / (2 * S)" using Spos by simp
  have fx: "\<lfloor>x3\<rfloor> = int k"
  proof (rule floor_unique)
    show "of_int (int k) \<le> x3" unfolding kk using close(2) t_eq r_lo by linarith
    show "x3 < of_int (int k) + 1" unfolding kk using close(1) t_eq r_hi by linarith
  qed
  have ft: "\<lfloor>t\<rfloor> = int k"
  proof (rule floor_unique)
    show "of_int (int k) \<le> t" unfolding kk using half t_eq r_lo by linarith
    show "t < of_int (int k) + 1" unfolding kk using half t_eq r_hi by linarith
  qed
  from fx ft have "\<lfloor>x3\<rfloor> = \<lfloor>t\<rfloor>" by simp
  then show ?thesis unfolding x3_def t_def q_def L_def S_def .
qed

subsection \<open>Ties in a window of 20 frames\<close>

text \<open>
  With 20 samples, \<open>100 * loss / sentPackets\<close> ends in one half only for
  \<open>sentPackets\<close> 32, 160, 800 and 4000; there the floats are evaluated.
\<close>

lemma odd_divisors:
  "\<forall>m\<in>set [1..200]. odd m \<and> m dvd (4000::int) \<longrightarrow> m = 1 \<or> m = 5 \<or> m = 25 \<or> m = 125"
  by code_simp

lemma tie_sizes:
  fixes s :: nat
  assumes big: "20 \<le> s" and tie: "2 * s dvd 200 * (s - 20) + s"
  shows "s = 32 \<or> s = 160 \<or> s = 800 \<or> s = 4000"
proof -
  from tie obtain j where j: "200 * (s - 20) + s = 2 * s * j" by (auto simp add: dvd_def)
  define S where "S = int s"
  define m where "m = 201 - 2 * int j"
  have S20: "20 \<le> S" using big by (simp add: S_def)
  have "int (200 * (s - 20) + s) = int (2 * s * j)" using j by simp
  then have "200 * (S - 20) + S = 2 * S * int j"
    using big by (simp add: S_def of_nat_diff)
  then have prod: "S * m = 4000" by (simp add: m_def algebra_simps)
  have mpos: "0 < m"
  proof (rule ccontr)
    assume "\<not> 0 < m"
    then have "m \<le> 0" by simp
    with S20 have "S * m \<le> 0" by (simp add: mult_nonneg_nonpos)
    with prod show False by simp
  qed
  have mle: "m \<le> 200"
  proof (rule ccontr)
    assume "\<not> m \<le> 200"
    then have "201 \<le> m" by simp
    with S20 have "20 * 201 \<le> S * m" by (intro mult_mono) simp_all
    with prod show False by simp
  qed
  have "odd m" by (simp add: m_def)
  moreover have "m dvd 4000" using prod by (metis dvd_triv_right)
  moreover have "m \<in> set [1..200]" using mpos mle by simp
  ultimately have "m = 1 \<or> m = 5 \<or> m = 25 \<or> m = 125"
    using odd_divisors by blast
  with prod have "S = 4000 \<or> S = 800 \<or> S = 160 \<or> S = 32" by auto
  then show ?thesis by (auto simp add: S_def)
qed

lemma wrapped_no_tie':
  "\<forall>s\<in>set [1..19]. \<not> 2 * s dvd 201 * s + (858993455200::int)"
  by code_simp

lemma no_tie_when_wrapped:
  fixes s l :: nat
  assumes "0 < s" and "s < 20" and lw: "l = s + 4294967276"
  shows "\<not> 2 * s dvd 200 * l + s"
proof -
  have "int s \<in> set [1..19]" using assms(1,2) by simp
  with wrapped_no_tie' have a: "\<not> 2 * int s dvd 201 * int s + 858993455200" by blast
  have b: "201 * int s + 858993455200 = int (200 * l + s)"
    unfolding lw by simp
  have c: "2 * int s = int (2 * s)" by simp
  from a have "\<not> int (2 * s) dvd int (200 * l + s)" unfolding b c .
  then show ?thesis unfolding int_dvd_int_iff .
qed

lemma ties_agree:
  fixes s l :: nat
  assumes big: "20 \<le> s" and l20: "l = s - 20" and tie: "2 * s dvd 200 * l + s"
  shows "\<lfloor>if fused then round64 (round64 (rat_of_nat l / rat_of_nat s) * 100 + 1 / 2)
          else round64 (round64 (round64 (rat_of_nat l / rat_of_nat s) * 100) + 1 / 2)\<rfloor>
           = \<lfloor>100 * (rat_of_nat l / rat_of_nat s) + 1 / 2\<rfloor>"
proof -
  from tie_sizes [OF big tie [unfolded l20]]
  have "s = 32 \<or> s = 160 \<or> s = 800 \<or> s = 4000" .
  then show ?thesis
  proof (elim disjE)
    assume "s = 32"
    then show ?thesis by (cases fused) (simp_all add: l20 float_eval)
  next
    assume "s = 160"
    then show ?thesis by (cases fused) (simp_all add: l20 float_eval)
  next
    assume "s = 800"
    then show ?thesis by (cases fused) (simp_all add: l20 float_eval)
  next
    assume "s = 4000"
    then show ?thesis by (cases fused) (simp_all add: l20 float_eval)
  qed
qed

lemma chain_window_20:
  fixes sw :: uint32
  assumes "sw \<noteq> 0"
  shows "\<lfloor>if fused
          then round64 (round64 (rat_of_nat (unat (sw - 20)) / rat_of_nat (unat sw)) * 100 + 1 / 2)
          else round64 (round64 (round64 (rat_of_nat (unat (sw - 20)) / rat_of_nat (unat sw))
                          * 100) + 1 / 2)\<rfloor>
         = \<lfloor>100 * (rat_of_nat (unat (sw - 20)) / rat_of_nat (unat sw)) + 1 / 2\<rfloor>"
proof -
  define s where "s = unat sw"
  define l where "l = unat (sw - 20)"
  have spos: "0 < s" using assms by (simp add: s_def unat_gt_0)
  have sb: "s < 2 ^ 32" unfolding s_def using unsigned_less [of sw] by simp
  have lb: "l < 2 ^ 32" unfolding l_def using unsigned_less [of "sw - 20"] by simp
  have l_eq: "l = (if 20 \<le> s then s - 20 else s + 4294967276)"
    by (simp add: l_def s_def unat_sub_if_size word_size)
  have "\<lfloor>if fused then round64 (round64 (rat_of_nat l / rat_of_nat s) * 100 + 1 / 2)
          else round64 (round64 (round64 (rat_of_nat l / rat_of_nat s) * 100) + 1 / 2)\<rfloor>
           = \<lfloor>100 * (rat_of_nat l / rat_of_nat s) + 1 / 2\<rfloor>"
  proof (cases "2 * s dvd 200 * l + s")
    case False
    show ?thesis by (rule loss_chain_floor [OF spos sb lb False])
  next
    case tie: True
    show ?thesis
    proof (cases "20 \<le> s")
      case True
      with l_eq have l20: "l = s - 20" by simp
      show ?thesis by (rule ties_agree [OF True l20 tie])
    next
      case False
      with l_eq have lw: "l = s + 4294967276" by simp
      from False have "s < 20" by simp
      from no_tie_when_wrapped [OF spos this lw] tie show ?thesis by simp
    qed
  qed
  then show ?thesis unfolding s_def l_def .
qed

subsection \<open>lossPercentage\<close>

lemma int_of_float64_floor:
  assumes "0 \<le> k" and "k < 2 ^ 63" and "\<lfloor>x\<rfloor> = k"
  shows "sint (int_of_float64 undef (math_Floor (Finite x))) = k"
proof -
  have "sint (word_of_int k :: 64 word) = k"
    using assms(1,2) by (simp add: signed_of_int signed_take_bit_int_eq_self)
  then show ?thesis
    using assms by (simp add: Let_def)
qed

lemma lossPercentage_floats:
  assumes ne: "frames \<noteq> []"
    and sent: "FCnt (frames ! 0) - FCnt (frames ! (length frames - 1)) + 1 \<noteq> 0"
  shows "lossPercentage pf frames =
     int_of_float64 (int_of_nonfinite pf) (math_Floor (Finite
       (if fused_multiply_add pf
        then round64 (round64
          (of_nat (unat (FCnt (frames ! 0) - FCnt (frames ! (length frames - 1)) + 1
                         - of_nat (length frames)))
           / of_nat (unat (FCnt (frames ! 0) - FCnt (frames ! (length frames - 1)) + 1)))
          * 100 + 1 / 2)
        else round64 (round64 (round64
          (of_nat (unat (FCnt (frames ! 0) - FCnt (frames ! (length frames - 1)) + 1
                         - of_nat (length frames)))
           / of_nat (unat (FCnt (frames ! 0) - FCnt (frames ! (length frames - 1)) + 1)))
          * 100) + 1 / 2))))"
proof -
  have nz: "rat_of_nat (unat (FCnt (frames ! 0) - FCnt (frames ! (length frames - 1)) + 1)) \<noteq> 0"
    using sent by (simp add: unsigned_eq_0_iff)
  show ?thesis
    using ne nz
    by (simp add: lossPercentage_def Let_def f64_of_uint32_def
        del: int_of_float64.simps math_Floor.simps)
qed

lemma round_bounds:
  fixes l s :: nat
  assumes "0 < s" and "l < 2 ^ 32"
  shows "0 \<le> \<lfloor>100 * (rat_of_nat l / rat_of_nat s) + 1 / 2\<rfloor>"
    and "\<lfloor>100 * (rat_of_nat l / rat_of_nat s) + 1 / 2\<rfloor> < 2 ^ 63"
proof -
  have q: "0 \<le> rat_of_nat l / rat_of_nat s" by simp
  then show "0 \<le> \<lfloor>100 * (rat_of_nat l / rat_of_nat s) + 1 / 2\<rfloor>" by simp
  have "rat_of_nat l / rat_of_nat s \<le> rat_of_nat l"
    using assms(1) by (simp add: field_simps mult_le_cancel_left1)
  also have "\<dots> < 2 ^ 32" using assms(2) by simp
  finally have "100 * (rat_of_nat l / rat_of_nat s) + 1 / 2 < 2 ^ 63" by simp
  then show "\<lfloor>100 * (rat_of_nat l / rat_of_nat s) + 1 / 2\<rfloor> < 2 ^ 63"
    by (simp add: floor_less_iff)
qed

lemma lossPercentage_window_20:
  assumes len: "length frames = FramesHistorySize"
    and sent: "FCnt (frames ! 0) - FCnt (frames ! (length frames - 1)) + 1 \<noteq> 0"
  shows "sint (lossPercentage pf frames) =
     round (100 * rat_of_nat (unat (FCnt (frames ! 0) - FCnt (frames ! (length frames - 1)) + 1
                                     - of_nat (length frames)))
            / rat_of_nat (unat (FCnt (frames ! 0) - FCnt (frames ! (length frames - 1)) + 1)))"
proof -
  define sw where "sw = FCnt (frames ! 0) - FCnt (frames ! (length frames - 1)) + 1"
  have ne: "frames \<noteq> []" using len by (auto simp add: FramesHistorySize_def)
  have n20: "(of_nat (length frames) :: uint32) = 20"
    using len by (simp add: FramesHistorySize_def)
  have swz: "sw \<noteq> 0" using sent by (simp add: sw_def)
  define k where "k = \<lfloor>100 * (rat_of_nat (unat (sw - 20)) / rat_of_nat (unat sw)) + 1 / 2\<rfloor>"
  have spos: "0 < unat sw" using swz by (simp add: unat_gt_0)
  have lb: "unat (sw - 20) < 2 ^ 32" using unsigned_less [of "sw - 20"] by simp
  have k0: "0 \<le> k" and k63: "k < 2 ^ 63"
    unfolding k_def by (rule round_bounds [OF spos lb])+
  have fl: "\<lfloor>if fused_multiply_add pf
       then round64 (round64 (rat_of_nat (unat (sw - 20)) / rat_of_nat (unat sw)) * 100 + 1 / 2)
       else round64 (round64 (round64 (rat_of_nat (unat (sw - 20)) / rat_of_nat (unat sw))
                       * 100) + 1 / 2)\<rfloor> = k"
    unfolding k_def by (rule chain_window_20 [OF swz])
  have "lossPercentage pf frames =
     int_of_float64 (int_of_nonfinite pf) (math_Floor (Finite
       (if fused_multiply_add pf
        then round64 (round64 (rat_of_nat (unat (sw - 20)) / rat_of_nat (unat sw)) * 100 + 1 / 2)
        else round64 (round64 (round64 (rat_of_nat (unat (sw - 20)) / rat_of_nat (unat sw))
                        * 100) + 1 / 2))))"
    using lossPercentage_floats [OF ne sent] unfolding n20 sw_def [symmetric] .
  then have "sint (lossPercentage pf frames) = k"
    by (simp only: int_of_float64_floor [OF k0 k63 fl])
  also have "k = round (100 * rat_of_nat (unat (sw - 20)) / rat_of_nat (unat sw))"
    by (simp add: k_def round_def)
  finally show ?thesis unfolding n20 sw_def [symmetric] .
qed

lemma round64_half: "round64 (1 / 2) = 1 / 2"
  by (simp add: float_eval)

lemma round64_zero: "round64 0 = 0"
  by (simp add: round64_def round_sig_def)

lemma lossPercentage_no_gaps:
  assumes ne: "frames \<noteq> []" and small: "length frames < 2 ^ 32"
    and consecutive: "\<forall>i<length frames. FCnt (frames ! i) = FCnt (frames ! 0) - of_nat i"
  shows "lossPercentage pf frames = 0"
proof -
  define n where "n = length frames"
  have npos: "0 < n" using ne by (simp add: n_def)
  have "n - 1 < length frames" using npos by (simp add: n_def)
  with consecutive have "FCnt (frames ! (n - 1)) = FCnt (frames ! 0) - of_nat (n - 1)"
    by blast
  then have sw: "FCnt (frames ! 0) - FCnt (frames ! (n - 1)) + 1 = (of_nat n :: uint32)"
    using npos by (simp add: of_nat_diff)
  have "n < 2 ^ LENGTH(32)"
    using small unfolding n_def by simp
  with npos have swz: "(of_nat n :: uint32) \<noteq> 0"
    by (rule of_nat_neq_0)
  have "lossPercentage pf frames =
      int_of_float64 (int_of_nonfinite pf) (math_Floor (Finite
        (if fused_multiply_add pf then round64 (round64 0 * 100 + 1 / 2)
         else round64 (round64 (round64 0 * 100) + 1 / 2))))"
    using lossPercentage_floats [of frames pf] ne sw swz
    by (simp add: n_def [symmetric])
  also have "\<dots> = 0"
    by (simp add: round64_zero round64_half floor_rat_numeral)
  finally show ?thesis .
qed

lemma lossPercentage_zero_sent:
  assumes len: "length frames = FramesHistorySize"
    and sent: "FCnt (frames ! 0) - FCnt (frames ! (length frames - 1)) + 1 = 0"
  shows "lossPercentage pf frames = int_of_nonfinite pf"
proof -
  have n20: "length frames = 20" using len by (simp add: FramesHistorySize_def)
  have l: "unat (- 20 :: uint32) \<noteq> 0" by (simp add: unsigned_eq_0_iff)
  show ?thesis
    using sent n20 l by (simp add: lossPercentage_def Let_def f64_of_uint32_def)
qed

lemma uint32_values:
  fixes newest oldest :: uint32
  assumes lo: "20 \<le> uint newest - uint oldest + 1"
    and hi: "uint newest - uint oldest + 1 < 2 ^ 32"
  shows "int (unat (newest - oldest + 1)) = uint newest - uint oldest + 1"
    and "int (unat (newest - oldest + 1 - 20)) = uint newest - uint oldest + 1 - 20"
    and "newest - oldest + 1 \<noteq> 0"
proof -
  have a: "uint (newest - oldest + 1) = uint newest - uint oldest + 1"
    using lo hi by (simp add: uint_word_ariths take_bit_eq_mod mod_add_left_eq mod_diff_eq)
  have b: "uint (newest - oldest + 1 - 20) = uint newest - uint oldest + 1 - 20"
    using lo hi by (simp add: uint_word_ariths take_bit_eq_mod mod_add_left_eq mod_diff_eq)
  show "int (unat (newest - oldest + 1)) = uint newest - uint oldest + 1"
    using a by simp
  show "int (unat (newest - oldest + 1 - 20)) = uint newest - uint oldest + 1 - 20"
    using b by simp
  show "newest - oldest + 1 \<noteq> 0"
    using a lo by auto
qed


lemma lossPercentage_spec:
  assumes len: "length frames = FramesHistorySize"
    and lo: "int FramesHistorySize
               \<le> uint (FCnt (frames ! 0)) - uint (FCnt (frames ! (length frames - 1))) + 1"
    and hi: "uint (FCnt (frames ! 0)) - uint (FCnt (frames ! (length frames - 1))) + 1 < 2 ^ 32"
  shows "sint (lossPercentage pf frames) = spec_lossPercentage frames"
proof -
  define newest where "newest = FCnt (frames ! 0)"
  define oldest where "oldest = FCnt (frames ! (length frames - 1))"
  have n20: "length frames = 20" using len by (simp add: FramesHistorySize_def)
  have lo': "20 \<le> uint newest - uint oldest + 1"
    using lo by (simp add: newest_def oldest_def FramesHistorySize_def)
  have hi': "uint newest - uint oldest + 1 < 2 ^ 32"
    using hi by (simp add: newest_def oldest_def)
  note v = uint32_values [OF lo' hi']
  have s: "rat_of_nat (unat (newest - oldest + 1)) = rat_of_int (uint newest - uint oldest + 1)"
    using v(1) by (metis of_int_of_nat_eq)
  have l: "rat_of_nat (unat (newest - oldest + 1 - 20))
      = rat_of_int (uint newest - uint oldest + 1 - 20)"
    using v(2) by (metis of_int_of_nat_eq)
  have sent: "FCnt (frames ! 0) - FCnt (frames ! (length frames - 1)) + 1 \<noteq> 0"
    using v(3) by (simp add: newest_def oldest_def)
  have "sint (lossPercentage pf frames) =
      round (100 * rat_of_nat (unat (newest - oldest + 1 - 20))
             / rat_of_nat (unat (newest - oldest + 1)))"
    using lossPercentage_window_20 [OF len sent, of pf]
    by (simp add: n20 newest_def oldest_def)
  also have "\<dots> = round (100 * rat_of_int (uint newest - uint oldest + 1 - 20)
             / rat_of_int (uint newest - uint oldest + 1))"
    unfolding s l ..
  also have "\<dots> = spec_lossPercentage frames"
    by (simp add: spec_lossPercentage_def Let_def n20 newest_def oldest_def)
  finally show ?thesis .
qed

lemma lossPercentage_repeated:
  "sint (lossPercentage pf repeated_frames) = 429496727700"
proof -
  have "lossPercentage pf repeated_frames = 429496727700"
    by (cases "fused_multiply_add pf")
       (simp_all add: lossPercentage_def repeated_frames_def f64_of_uint32_def float_eval)
  then show ?thesis by simp
qed

lemma spec_lossPercentage_repeated: "spec_lossPercentage repeated_frames = - 1900"
  by (simp add: spec_lossPercentage_def repeated_frames_def Let_def round_def floor_eq_iff)

lemma lossPercentage_restarted:
  "lossPercentage pf restarted_frames = int_of_nonfinite pf"
  by (rule lossPercentage_zero_sent)
     (simp_all add: restarted_frames_def FramesHistorySize_def)


lemma spec_lossPercentage_example:
  "spec_lossPercentage
        (map (\<lambda>c. \<lparr>FCnt = c, SNR = snr, GatewayCount = count\<rparr>)
           [119, 118, 117, 116, 115, 114, 113, 112, 111,
            109, 108, 107, 106, 104, 103, 102, 101, 100]) = 10"
  by (simp add: spec_lossPercentage_def Let_def round_def floor_eq_iff)

text \<open>
  C1. For a window of \<open>FramesHistorySize\<close> frames, with \<open>sentPackets\<close> and \<open>loss\<close>
  the code's \<open>uint32\<close> values (taken modulo \<open>2^32\<close>): when \<open>sentPackets\<close> is not zero,
  \<open>lossPercentage\<close> is the rounding of \<open>100 * loss / sentPackets\<close>; when it is zero,
  the result is the integer that the platform gives to a non-finite \<open>float64\<close>. The
  \<open>uint32\<close> values are the integers of the specification's formula, and the result is
  the specification's percentage, when the window has at most
  \<open>newest.FCnt - oldest.FCnt + 1\<close> samples and that number is below \<open>2^32\<close>. A window
  without gaps gives 0; the example window with the counters 100 to 119 except 105 and 110
  gives 10.
\<close>

theorem lossPercentage_formula:
  "(length frames = FramesHistorySize
      \<and> FCnt (frames ! 0) - FCnt (frames ! (length frames - 1)) + 1 \<noteq> 0 \<longrightarrow>
      (let sentPackets = FCnt (frames ! 0) - FCnt (frames ! (length frames - 1)) + 1;
           loss = sentPackets - of_nat (length frames)
       in sint (lossPercentage pf frames) =
            round (100 * rat_of_nat (unat loss) / rat_of_nat (unat sentPackets))))
   \<and> (length frames = FramesHistorySize
        \<and> FCnt (frames ! 0) - FCnt (frames ! (length frames - 1)) + 1 = 0 \<longrightarrow>
      lossPercentage pf frames = int_of_nonfinite pf)
   \<and> (length frames = FramesHistorySize
        \<and> int (length frames)
             \<le> uint (FCnt (frames ! 0)) - uint (FCnt (frames ! (length frames - 1))) + 1
        \<and> uint (FCnt (frames ! 0)) - uint (FCnt (frames ! (length frames - 1))) + 1 < 2 ^ 32 \<longrightarrow>
      sint (lossPercentage pf frames) = spec_lossPercentage frames)
   \<and> (frames \<noteq> [] \<and> length frames < 2 ^ 32
        \<and> (\<forall>i<length frames. FCnt (frames ! i) = FCnt (frames ! 0) - of_nat i) \<longrightarrow>
      lossPercentage pf frames = 0)
   \<and> lossPercentage pf
        (map (\<lambda>c. \<lparr>FCnt = c, SNR = snr, GatewayCount = count\<rparr>)
           [119, 118, 117, 116, 115, 114, 113, 112, 111,
            109, 108, 107, 106, 104, 103, 102, 101, 100]) = 10
   \<and> spec_lossPercentage
        (map (\<lambda>c. \<lparr>FCnt = c, SNR = snr, GatewayCount = count\<rparr>)
           [119, 118, 117, 116, 115, 114, 113, 112, 111,
            109, 108, 107, 106, 104, 103, 102, 101, 100]) = 10"
proof (intro conjI impI)
  assume "length frames = FramesHistorySize
      \<and> FCnt (frames ! 0) - FCnt (frames ! (length frames - 1)) + 1 \<noteq> 0"
  then show "let sentPackets = FCnt (frames ! 0) - FCnt (frames ! (length frames - 1)) + 1;
           loss = sentPackets - of_nat (length frames)
       in sint (lossPercentage pf frames) =
            round (100 * rat_of_nat (unat loss) / rat_of_nat (unat sentPackets))"
    unfolding Let_def using lossPercentage_window_20 by blast
next
  assume "length frames = FramesHistorySize
        \<and> FCnt (frames ! 0) - FCnt (frames ! (length frames - 1)) + 1 = 0"
  then show "lossPercentage pf frames = int_of_nonfinite pf"
    using lossPercentage_zero_sent by blast
next
  assume a: "length frames = FramesHistorySize
        \<and> int (length frames)
             \<le> uint (FCnt (frames ! 0)) - uint (FCnt (frames ! (length frames - 1))) + 1
        \<and> uint (FCnt (frames ! 0)) - uint (FCnt (frames ! (length frames - 1))) + 1 < 2 ^ 32"
  then have len: "length frames = FramesHistorySize" by blast
  from a have "int FramesHistorySize
      \<le> uint (FCnt (frames ! 0)) - uint (FCnt (frames ! (length frames - 1))) + 1"
    unfolding len by blast
  moreover from a
  have "uint (FCnt (frames ! 0)) - uint (FCnt (frames ! (length frames - 1))) + 1 < 2 ^ 32"
    by blast
  ultimately show "sint (lossPercentage pf frames) = spec_lossPercentage frames"
    using len by (intro lossPercentage_spec)
next
  assume "frames \<noteq> [] \<and> length frames < 2 ^ 32
        \<and> (\<forall>i<length frames. FCnt (frames ! i) = FCnt (frames ! 0) - of_nat i)"
  then show "lossPercentage pf frames = 0"
    using lossPercentage_no_gaps by blast
next
  show "lossPercentage pf
        (map (\<lambda>c. \<lparr>FCnt = c, SNR = snr, GatewayCount = count\<rparr>)
           [119, 118, 117, 116, 115, 114, 113, 112, 111,
            109, 108, 107, 106, 104, 103, 102, 101, 100]) = 10"
    by (cases "fused_multiply_add pf") (simp_all add: lossPercentage_def float_eval)
next
  show "spec_lossPercentage
        (map (\<lambda>c. \<lparr>FCnt = c, SNR = snr, GatewayCount = count\<rparr>)
           [119, 118, 117, 116, 115, 114, 113, 112, 111,
            109, 108, 107, 106, 104, 103, 102, 101, 100]) = 10"
    by (rule spec_lossPercentage_example)
qed

theorem lossPercentage_formula_witness:
  "length gapped_frames = FramesHistorySize
   \<and> FCnt (gapped_frames ! 0) - FCnt (gapped_frames ! (length gapped_frames - 1)) + 1 = 25
   \<and> uint (FCnt (gapped_frames ! 0)) - uint (FCnt (gapped_frames ! (length gapped_frames - 1))) + 1
       = 25
   \<and> sint (lossPercentage \<lparr>fused_multiply_add = True, int_of_nonfinite = 0\<rparr> gapped_frames)
       = round (100 * 5 / 25 :: rat)
   \<and> sint (lossPercentage \<lparr>fused_multiply_add = True, int_of_nonfinite = 0\<rparr> gapped_frames) = 20
   \<and> spec_lossPercentage gapped_frames = 20
   \<and> length restarted_frames = FramesHistorySize
   \<and> FCnt (restarted_frames ! 0) - FCnt (restarted_frames ! (length restarted_frames - 1)) + 1 = 0
   \<and> lossPercentage \<lparr>fused_multiply_add = False, int_of_nonfinite = - (2 ^ 63)\<rparr> restarted_frames
       = - (2 ^ 63)
   \<and> lossPercentage \<lparr>fused_multiply_add = False, int_of_nonfinite = 0\<rparr> example_frames = 0"
proof -
  let ?fused = "\<lparr>fused_multiply_add = True, int_of_nonfinite = 0\<rparr>"
  let ?amd64 = "\<lparr>fused_multiply_add = False, int_of_nonfinite = - (2 ^ 63)\<rparr>"
  have len: "length gapped_frames = FramesHistorySize"
    by (simp add: gapped_frames_def FramesHistorySize_def)
  have sent: "FCnt (gapped_frames ! 0) - FCnt (gapped_frames ! (length gapped_frames - 1)) + 1
      = 25"
    by (simp add: gapped_frames_def)
  have isent: "uint (FCnt (gapped_frames ! 0))
      - uint (FCnt (gapped_frames ! (length gapped_frames - 1))) + 1 = 25"
    by (simp add: gapped_frames_def)
  have len': "length restarted_frames = FramesHistorySize"
    by (simp add: restarted_frames_def FramesHistorySize_def)
  have sent': "FCnt (restarted_frames ! 0)
      - FCnt (restarted_frames ! (length restarted_frames - 1)) + 1 = 0"
    by (simp add: restarted_frames_def)
  have cons: "\<forall>i<length example_frames.
      FCnt (example_frames ! i) = FCnt (example_frames ! 0) - of_nat i"
    by (simp add: example_frames_def All_less_Suc numeral_eq_Suc [of "Num.Bit0 (Num.Bit0 (Num.Bit1 (Num.Bit0 Num.One)))"])
  from lossPercentage_formula [of gapped_frames ?fused, THEN conjunct1] len sent
  have a: "sint (lossPercentage ?fused gapped_frames) = round (100 * 5 / 25 :: rat)"
    by (simp add: Let_def FramesHistorySize_def)
  then have b: "sint (lossPercentage ?fused gapped_frames) = 20"
    by (simp add: round_def floor_rat_numeral)
  from lossPercentage_formula [of gapped_frames ?fused, THEN conjunct2, THEN conjunct2,
      THEN conjunct1] len isent
  have "sint (lossPercentage ?fused gapped_frames) = spec_lossPercentage gapped_frames"
    by (simp add: FramesHistorySize_def)
  with b have c: "spec_lossPercentage gapped_frames = 20" by simp
  from lossPercentage_formula [of restarted_frames ?amd64, THEN conjunct2, THEN conjunct1]
    len' sent'
  have d: "lossPercentage ?amd64 restarted_frames = - (2 ^ 63)"
    by simp
  from lossPercentage_formula [of example_frames
      "\<lparr>fused_multiply_add = False, int_of_nonfinite = 0\<rparr>",
      THEN conjunct2, THEN conjunct2, THEN conjunct2, THEN conjunct1] cons
  have e: "lossPercentage \<lparr>fused_multiply_add = False, int_of_nonfinite = 0\<rparr> example_frames = 0"
    by (simp add: example_frames_def)
  from len sent isent a b c len' sent' d e show ?thesis by blast
qed

text \<open>
  Twenty samples of the same counter: the specification's formula gives
  \<open>round(100 * (1 - 20) / 1) = -1900\<close>, the code's \<open>loss\<close> wraps to \<open>2^32 - 19\<close>.
  A newest counter one below the oldest: \<open>sentPackets\<close> is 0, the quotient is infinite.
\<close>

theorem lossPercentage_formula_counterexample:
  "(\<forall>pf. sint (lossPercentage pf repeated_frames) = 429496727700)
   \<and> spec_lossPercentage repeated_frames = - 1900
   \<and> uint (FCnt (restarted_frames ! 0))
       - uint (FCnt (restarted_frames ! (length restarted_frames - 1))) + 1 = 0
   \<and> (\<forall>pf. lossPercentage pf restarted_frames = int_of_nonfinite pf)"
  using lossPercentage_repeated spec_lossPercentage_repeated lossPercentage_restarted
  by (simp add: restarted_frames_def)

end
